theory Spec2Isabelle
  imports Complex_Main
begin

section \<open>The assembler and virtual machine of asm\_compiler\_vm.py\<close>

text \<open>
  A shallow embedding of the classes \<open>Instruction\<close>, \<open>AssemblyCompiler\<close> and
  \<open>VirtualMachine\<close>. Source text is a \<^typ>\<open>string\<close>. The character classes below are
  those of Python's \<open>str\<close> methods and of the \<open>re\<close> module on the code points below 128
  only: the string primitives are those of Python on ASCII text, and on no other. Every
  property of the assembler that speaks of an arbitrary source text or line therefore
  assumes it ASCII (\<open>ascii\<close>, below). Integers are Python's unbounded integers, hence
  \<^typ>\<open>int\<close>; \<open>int()\<close> is modelled without the interpreter's configurable limit on the
  number of digits.
\<close>

subsection \<open>Python string primitives used by the compiler\<close>

definition code :: "char \<Rightarrow> nat" where
  "code c = of_char c"

definition isspace :: "char \<Rightarrow> bool" where
  \<comment> \<open>whitespace of \<open>str.strip()\<close> and \<open>str.split()\<close>: TAB, LF, VT, FF, CR, FS, GS, RS, US, SPACE\<close>
  "isspace c = (let n = code c in (9 \<le> n \<and> n \<le> 13) \<or> (28 \<le> n \<and> n \<le> 32))"

definition islinebreak :: "char \<Rightarrow> bool" where
  \<comment> \<open>line boundaries of \<open>str.splitlines()\<close>: LF, VT, FF, CR, FS, GS, RS\<close>
  "islinebreak c = (let n = code c in (10 \<le> n \<and> n \<le> 13) \<or> (28 \<le> n \<and> n \<le> 30))"

definition isupper_c :: "char \<Rightarrow> bool" where
  "isupper_c c = (let n = code c in 65 \<le> n \<and> n \<le> 90)"

definition islower_c :: "char \<Rightarrow> bool" where
  "islower_c c = (let n = code c in 97 \<le> n \<and> n \<le> 122)"

definition isalpha_c :: "char \<Rightarrow> bool" where
  "isalpha_c c = (isupper_c c \<or> islower_c c)"

definition isdigit_c :: "char \<Rightarrow> bool" where
  "isdigit_c c = (let n = code c in 48 \<le> n \<and> n \<le> 57)"

definition isword_c :: "char \<Rightarrow> bool" where
  \<comment> \<open>the class \<open>\w\<close> of the \<open>re\<close> module: letters, digits and the underscore\<close>
  "isword_c c = (isalpha_c c \<or> isdigit_c c \<or> c = CHR ''_'')"

definition upper_c :: "char \<Rightarrow> char" where
  "upper_c c = (if islower_c c then char_of (code c - 32) else c)"

definition upper :: "string \<Rightarrow> string" where
  \<comment> \<open>\<open>str.upper()\<close>\<close>
  "upper s = map upper_c s"

definition isalpha :: "string \<Rightarrow> bool" where
  \<comment> \<open>\<open>str.isalpha()\<close>: false on the empty string\<close>
  "isalpha s = (s \<noteq> [] \<and> list_all isalpha_c s)"

definition strip :: "string \<Rightarrow> string" where
  \<comment> \<open>\<open>str.strip()\<close>\<close>
  "strip s = rev (dropWhile isspace (rev (dropWhile isspace s)))"

fun split_from :: "string \<Rightarrow> string \<Rightarrow> string list" where
  \<comment> \<open>\<open>str.split()\<close> with the word read so far in the first argument\<close>
  "split_from w [] = (if w = [] then [] else [w])"
| "split_from w (c # cs) =
     (if isspace c then (if w = [] then split_from [] cs else w # split_from [] cs)
      else split_from (w @ [c]) cs)"

definition split :: "string \<Rightarrow> string list" where
  \<comment> \<open>\<open>str.split()\<close>: the maximal runs of characters that are not whitespace\<close>
  "split s = split_from [] s"

fun splitlines_from :: "string \<Rightarrow> string \<Rightarrow> string list" where
  \<comment> \<open>\<open>str.splitlines()\<close> with the line read so far in the first argument; CR LF is one
      boundary, and a boundary at the very end opens no further line\<close>
  "splitlines_from l [] = (if l = [] then [] else [l])"
| "splitlines_from l (c # cs) =
     (if c = CHR 0x0D then
        (case cs of
           [] \<Rightarrow> [l]
         | d # ds \<Rightarrow> if d = CHR 0x0A then l # splitlines_from [] ds
                     else l # splitlines_from [] cs)
      else if islinebreak c then l # splitlines_from [] cs
      else splitlines_from (l @ [c]) cs)"

definition splitlines :: "string \<Rightarrow> string list" where
  "splitlines s = splitlines_from [] s"

definition remove_comment :: "string \<Rightarrow> string" where
  \<comment> \<open>\<open>re.sub(r';.*$', '', line)\<close>. The dot does not match a line feed and \<open>$\<close> matches at
      the end or before a line feed that ends the string, so a match starts at a \<open>;\<close> that
      no line feed follows, but for a final one: what is deleted runs from the first \<open>;\<close>
      after the last inner line feed up to the end or the final line feed\<close>
  "remove_comment line =
     (let final = (line \<noteq> [] \<and> last line = CHR 0x0A);
          body = (if final then butlast line else line);
          before = rev (dropWhile (\<lambda>c. c \<noteq> CHR 0x0A) (rev body));
          segment = rev (takeWhile (\<lambda>c. c \<noteq> CHR 0x0A) (rev body))
      in before @ takeWhile (\<lambda>c. c \<noteq> CHR '';'') segment @ (if final then [CHR 0x0A] else []))"

definition label_match :: "string \<Rightarrow> string option" where
  \<comment> \<open>\<open>re.match(r'(\w+):', line)\<close> and its group 1: the longest prefix of word characters,
      when it is not empty and a colon follows\<close>
  "label_match line =
     (let w = takeWhile isword_c line in
      case dropWhile isword_c line of
        [] \<Rightarrow> None
      | c # _ \<Rightarrow> if w \<noteq> [] \<and> c = CHR '':'' then Some w else None)"

fun digits_value :: "int \<Rightarrow> bool \<Rightarrow> string \<Rightarrow> int option" where
  \<comment> \<open>the digits of a literal after its sign, with the value read so far and whether the
      last character was a digit; a single underscore may stand between two digits\<close>
  "digits_value acc prev [] = (if prev then Some acc else None)"
| "digits_value acc prev (c # cs) =
     (if isdigit_c c then digits_value (10 * acc + int (code c - 48)) True cs
      else if c = CHR ''_'' \<and> prev \<and> cs \<noteq> [] \<and> isdigit_c (hd cs) then digits_value acc False cs
      else None)"

definition int_of_str :: "string \<Rightarrow> int option" where
  \<comment> \<open>\<open>int(operand_str)\<close> in base 10; \<open>None\<close> is the \<open>ValueError\<close>\<close>
  "int_of_str s =
     (case s of
        [] \<Rightarrow> None
      | c # cs \<Rightarrow>
          if c = CHR ''-'' then map_option uminus (digits_value 0 False cs)
          else if c = CHR ''+'' then digits_value 0 False cs
          else digits_value 0 False s)"

subsection \<open>Instructions\<close>

datatype instruction =
  PUSH | POP | ADD | SUB | MUL | DIV | STORE | LOAD | JMP | JZ | JNZ | CALL | RET | PRINT | HALT

subsection \<open>AssemblyCompiler\<close>

definition instruction_map :: "string \<Rightarrow> instruction option" where
  "instruction_map = map_of
     [(''PUSH'', PUSH), (''POP'', POP), (''ADD'', ADD), (''SUB'', SUB), (''MUL'', MUL),
      (''DIV'', DIV), (''STORE'', STORE), (''LOAD'', LOAD), (''JMP'', JMP), (''JZ'', JZ),
      (''JNZ'', JNZ), (''CALL'', CALL), (''RET'', RET), (''PRINT'', PRINT), (''HALT'', HALT)]"

text \<open>
  Before the second pass an operand is an integer or the name of a label not yet resolved
  (a Python \<open>int\<close> or \<open>str\<close>). The second pass replaces each name by an integer or
  raises, so the list it returns holds integers only: a \<open>program\<close>, the type the virtual
  machine takes.
\<close>

datatype operand = Num int | Sym string

type_synonym raw_instruction = "instruction \<times> operand option"
type_synonym program = "(instruction \<times> int option) list"

record compiler =
  labels :: "string \<Rightarrow> int option"
  instructions :: "raw_instruction list"

text \<open>
  The exceptions \<open>compile\<close> can raise: the three \<open>ValueError\<close>s of the source, each with the
  text it names, and the \<open>IndexError\<close> of \<open>parts[0]\<close> on an empty list.
\<close>

datatype compile_error =
    UnknownInstruction string
  | InvalidOperand string
  | UndefinedLabel string
  | PartsIndexError

definition parse_line :: "compiler \<Rightarrow> string \<Rightarrow> compile_error + (compiler \<times> raw_instruction option)" where
  "parse_line self line0 =
     (let line = strip (remove_comment line0) in
      if line = [] then Inr (self, None)
      else case label_match line of
        Some label \<Rightarrow>
          Inr (self\<lparr>labels := (labels self)(label \<mapsto> int (length (instructions self)))\<rparr>, None)
      | None \<Rightarrow>
         (case split line of
            [] \<Rightarrow> Inl PartsIndexError
          | name # rest \<Rightarrow>
             (let instruction_name = upper name in
              case instruction_map instruction_name of
                None \<Rightarrow> Inl (UnknownInstruction instruction_name)
              | Some instruction \<Rightarrow>
                 (case rest of
                    [] \<Rightarrow> Inr (self, Some (instruction, None))
                  | operand_str # _ \<Rightarrow>
                      if isalpha operand_str
                      then Inr (self, Some (instruction, Some (Sym operand_str)))
                      else (case int_of_str operand_str of
                              None \<Rightarrow> Inl (InvalidOperand operand_str)
                            | Some n \<Rightarrow> Inr (self, Some (instruction, Some (Num n))))))))"

fun first_pass :: "compiler \<Rightarrow> string list \<Rightarrow> compile_error + compiler" where
  \<comment> \<open>the loop \<open>for line in lines\<close>\<close>
  "first_pass self [] = Inr self"
| "first_pass self (line # lines) =
     (case parse_line self line of
        Inl e \<Rightarrow> Inl e
      | Inr (self', None) \<Rightarrow> first_pass self' lines
      | Inr (self', Some result) \<Rightarrow>
          first_pass (self'\<lparr>instructions := instructions self' @ [result]\<rparr>) lines)"

fun resolve :: "(string \<Rightarrow> int option) \<Rightarrow> raw_instruction \<Rightarrow> compile_error + (instruction \<times> int option)" where
  \<comment> \<open>the body of the second loop, on one instruction\<close>
  "resolve lbls (instr, Some (Sym name)) =
     (case lbls name of
        Some target \<Rightarrow> Inr (instr, Some target)
      | None \<Rightarrow> Inl (UndefinedLabel name))"
| "resolve lbls (instr, Some (Num n)) = Inr (instr, Some n)"
| "resolve lbls (instr, None) = Inr (instr, None)"

fun second_pass :: "(string \<Rightarrow> int option) \<Rightarrow> raw_instruction list \<Rightarrow> compile_error + program" where
  \<comment> \<open>the loop \<open>for i, (instr, operand) in enumerate(self.instructions)\<close>\<close>
  "second_pass lbls [] = Inr []"
| "second_pass lbls (x # xs) =
     (case resolve lbls x of
        Inl e \<Rightarrow> Inl e
      | Inr y \<Rightarrow> (case second_pass lbls xs of Inl e \<Rightarrow> Inl e | Inr ys \<Rightarrow> Inr (y # ys)))"

definition compile :: "string \<Rightarrow> compile_error + program" where
  "compile source =
     (case first_pass \<lparr>labels = Map.empty, instructions = []\<rparr> (splitlines source) of
        Inl e \<Rightarrow> Inl e
      | Inr self \<Rightarrow> second_pass (labels self) (instructions self))"

subsection \<open>VirtualMachine\<close>

text \<open>
  The exceptions \<open>execute_instruction\<close> can raise: the \<open>ValueError\<close>s of the source, and the
  \<open>IndexError\<close> of \<open>self.program[self.ip]\<close> when the index is out of range.
\<close>

datatype vm_error =
    MissingOperand instruction
  | StackUnderflow
  | DivisionByZero
  | MemoryOutOfBounds int
  | CallStackUnderflow
  | FetchIndexError

text \<open>What \<open>print\<close> writes: the values of PRINT, and the message of \<open>run\<close> on an exception.\<close>

datatype out_line = Value int | RuntimeError vm_error

text \<open>
  The fields of the class. Both stacks are kept top first: \<open>append\<close> is \<open>#\<close> and \<open>pop\<close> takes
  the head. \<open>stdout\<close> is the standard output stream, which \<open>print\<close> appends to; it is not a
  field of the Python object and no method but \<open>print\<close> touches it.
\<close>

record vm =
  stack :: "int list"
  memory :: "int list"
  call_stack :: "int list"
  program :: program
  ip :: int
  running :: bool
  stdout :: "out_line list"

definition VirtualMachine :: "int \<Rightarrow> vm" where
  \<comment> \<open>the constructor; \<open>[0] * memory_size\<close> is empty for a negative size\<close>
  "VirtualMachine memory_size =
     \<lparr>stack = [], memory = replicate (nat memory_size) 0, call_stack = [], program = [],
      ip = 0, running = False, stdout = []\<rparr>"

definition load_program :: "vm \<Rightarrow> program \<Rightarrow> vm" where
  "load_program self prog = self\<lparr>program := prog, ip := 0, stack := [], call_stack := []\<rparr>"

text \<open>What a call of \<open>execute_instruction\<close> does: return a boolean or raise.\<close>

datatype outcome = Returned bool | Raised vm_error

definition fetch :: "program \<Rightarrow> int \<Rightarrow> (instruction \<times> int option) option" where
  \<comment> \<open>\<open>self.program[i]\<close>: a negative index counts from the end; \<open>None\<close> is the \<open>IndexError\<close>\<close>
  "fetch prog i =
     (if i < 0 then
        (if - i \<le> int (length prog) then Some (prog ! nat (int (length prog) + i)) else None)
      else if i < int (length prog) then Some (prog ! nat i)
      else None)"

fun dispatch :: "vm \<Rightarrow> instruction \<Rightarrow> int option \<Rightarrow> vm \<times> outcome" where
  "dispatch self PUSH operand =
     (case operand of
        None \<Rightarrow> (self, Raised (MissingOperand PUSH))
      | Some n \<Rightarrow> (self\<lparr>stack := n # stack self\<rparr>, Returned True))"
| "dispatch self POP operand =
     (case stack self of
        [] \<Rightarrow> (self, Raised StackUnderflow)
      | _ # rest \<Rightarrow> (self\<lparr>stack := rest\<rparr>, Returned True))"
| "dispatch self ADD operand =
     (case stack self of
        b # a # rest \<Rightarrow> (self\<lparr>stack := (a + b) # rest\<rparr>, Returned True)
      | _ \<Rightarrow> (self, Raised StackUnderflow))"
| "dispatch self SUB operand =
     (case stack self of
        b # a # rest \<Rightarrow> (self\<lparr>stack := (a - b) # rest\<rparr>, Returned True)
      | _ \<Rightarrow> (self, Raised StackUnderflow))"
| "dispatch self MUL operand =
     (case stack self of
        b # a # rest \<Rightarrow> (self\<lparr>stack := (a * b) # rest\<rparr>, Returned True)
      | _ \<Rightarrow> (self, Raised StackUnderflow))"
| "dispatch self DIV operand =
     (case stack self of
        b # a # rest \<Rightarrow>
          if b = 0 then (self\<lparr>stack := a # rest\<rparr>, Raised DivisionByZero)
          else (self\<lparr>stack := (a div b) # rest\<rparr>, Returned True)
      | _ \<Rightarrow> (self, Raised StackUnderflow))"
| "dispatch self STORE operand =
     (case stack self of
        val # address # rest \<Rightarrow>
          if address < 0 \<or> address \<ge> int (length (memory self))
          then (self\<lparr>stack := rest\<rparr>, Raised (MemoryOutOfBounds address))
          else (self\<lparr>stack := rest, memory := (memory self)[nat address := val]\<rparr>, Returned True)
      | _ \<Rightarrow> (self, Raised StackUnderflow))"
| "dispatch self LOAD operand =
     (case stack self of
        [] \<Rightarrow> (self, Raised StackUnderflow)
      | address # rest \<Rightarrow>
          if address < 0 \<or> address \<ge> int (length (memory self))
          then (self\<lparr>stack := rest\<rparr>, Raised (MemoryOutOfBounds address))
          else (self\<lparr>stack := memory self ! nat address # rest\<rparr>, Returned True))"
| "dispatch self JMP operand =
     (case operand of
        None \<Rightarrow> (self, Raised (MissingOperand JMP))
      | Some target \<Rightarrow> (self\<lparr>ip := target\<rparr>, Returned True))"
| "dispatch self JZ operand =
     (case stack self of
        [] \<Rightarrow> (self, Raised StackUnderflow)
      | val # rest \<Rightarrow>
          (case operand of
             Some target \<Rightarrow>
               if val = 0 then (self\<lparr>stack := rest, ip := target\<rparr>, Returned True)
               else (self\<lparr>stack := rest\<rparr>, Returned True)
           | None \<Rightarrow> (self\<lparr>stack := rest\<rparr>, Returned True)))"
| "dispatch self JNZ operand =
     (case stack self of
        [] \<Rightarrow> (self, Raised StackUnderflow)
      | val # rest \<Rightarrow>
          (case operand of
             Some target \<Rightarrow>
               if val \<noteq> 0 then (self\<lparr>stack := rest, ip := target\<rparr>, Returned True)
               else (self\<lparr>stack := rest\<rparr>, Returned True)
           | None \<Rightarrow> (self\<lparr>stack := rest\<rparr>, Returned True)))"
| "dispatch self CALL operand =
     (case operand of
        None \<Rightarrow> (self, Raised (MissingOperand CALL))
      | Some target \<Rightarrow> (self\<lparr>call_stack := ip self # call_stack self, ip := target\<rparr>, Returned True))"
| "dispatch self RET operand =
     (case call_stack self of
        [] \<Rightarrow> (self, Raised CallStackUnderflow)
      | ret # rest \<Rightarrow> (self\<lparr>call_stack := rest, ip := ret\<rparr>, Returned True))"
| "dispatch self PRINT operand =
     (case stack self of
        [] \<Rightarrow> (self, Raised StackUnderflow)
      | val # rest \<Rightarrow> (self\<lparr>stack := rest, stdout := stdout self @ [Value val]\<rparr>, Returned True))"
| "dispatch self HALT operand = (self, Returned False)"

definition execute_instruction :: "vm \<Rightarrow> vm \<times> outcome" where
  "execute_instruction self =
     (if ip self \<ge> int (length (program self)) then (self, Returned False)
      else case fetch (program self) (ip self) of
        None \<Rightarrow> (self, Raised FetchIndexError)
      | Some (instruction, operand) \<Rightarrow> dispatch (self\<lparr>ip := ip self + 1\<rparr>) instruction operand)"

text \<open>
  The \<open>while\<close> loop of \<open>run\<close>, which need not end: \<open>None\<close> is the run that never returns.
  The loop ends with the state it reached and the exception, if one left it.
\<close>

partial_function (option) run_loop :: "vm \<Rightarrow> (vm \<times> vm_error option) option" where
  "run_loop self =
     (if running self then
        (case execute_instruction self of
           (self', Returned continue) \<Rightarrow>
             if continue then run_loop self' else Some (self', None)
         | (self', Raised e) \<Rightarrow> Some (self', Some e))
      else Some (self, None))"

declare run_loop.simps [code]

definition run :: "vm \<Rightarrow> vm option" where
  \<comment> \<open>\<open>try\<close> the loop, \<open>except Exception\<close> print the message; then \<open>self.running = False\<close>\<close>
  "run self =
     (case run_loop (self\<lparr>running := True\<rparr>) of
        None \<Rightarrow> None
      | Some (self', None) \<Rightarrow> Some (self'\<lparr>running := False\<rparr>)
      | Some (self', Some e) \<Rightarrow>
          Some (self'\<lparr>stdout := stdout self' @ [RuntimeError e], running := False\<rparr>))"

subsection \<open>LanguageModel\<close>

definition compile_and_run :: "vm \<Rightarrow> string \<Rightarrow> compile_error + vm option" where
  \<comment> \<open>compile, load, run; an exception of \<open>compile\<close> goes to the caller\<close>
  "compile_and_run self source =
     (case compile source of
        Inl e \<Rightarrow> Inl e
      | Inr prog \<Rightarrow> Inr (run (load_program self prog)))"

subsection \<open>Vocabulary of the properties\<close>

text \<open>ASCII text: the strings on which the primitives above are those of Python.\<close>

definition ascii :: "string \<Rightarrow> bool" where
  "ascii s = list_all (\<lambda>c. code c < 128) s"

text \<open>
  \<open>fetches self instr operand\<close>: the next call of \<open>execute_instruction\<close> passes the
  end-of-program test and reads the pair \<open>(instr, operand)\<close> from the program.
\<close>

definition fetches :: "vm \<Rightarrow> instruction \<Rightarrow> int option \<Rightarrow> bool" where
  "fetches self instr operand =
     (ip self < int (length (program self)) \<and>
      fetch (program self) (ip self) = Some (instr, operand))"

text \<open>
  \<open>continues n self = Some s\<close>: \<open>n\<close> successive calls of \<open>execute_instruction\<close> from \<open>self\<close>
  all return true and lead to \<open>s\<close>.
\<close>

fun continues :: "nat \<Rightarrow> vm \<Rightarrow> vm option" where
  "continues 0 self = Some self"
| "continues (Suc n) self =
     (case execute_instruction self of
        (self', Returned True) \<Rightarrow> continues n self'
      | _ \<Rightarrow> None)"

text \<open>
  The vocabulary of the assembler's properties, on one source line: the line as
  \<open>parse_line\<close> sees it after the comment and the surrounding whitespace are removed, the
  label it declares, whether it is an instruction line (neither blank nor a label
  declaration), and its whitespace-separated tokens.
\<close>

definition clean :: "string \<Rightarrow> string" where
  "clean line = strip (remove_comment line)"

definition declared_label :: "string \<Rightarrow> string option" where
  "declared_label line = label_match (clean line)"

definition is_instruction_line :: "string \<Rightarrow> bool" where
  "is_instruction_line line = (clean line \<noteq> [] \<and> label_match (clean line) = None)"

definition tokens :: "string \<Rightarrow> string list" where
  "tokens line = split (clean line)"

text \<open>The label a raw instruction still refers to by name.\<close>

fun sym_of :: "raw_instruction \<Rightarrow> string option" where
  "sym_of (instr, Some (Sym name)) = Some name"
| "sym_of (instr, Some (Num n)) = None"
| "sym_of (instr, None) = None"

text \<open>
  The compile-time errors in the words of the specification. An instruction line is in
  error when its first token, in upper case, is not one of the fifteen mnemonics
  (UnknownInstruction, with the token in upper case), or else when it has a second token
  that is neither purely alphabetic nor an integer literal (InvalidOperand, with the
  token). It refers to a label when its second token is purely alphabetic.
\<close>

definition spec_line_error :: "string \<Rightarrow> compile_error option" where
  "spec_line_error line =
     (if is_instruction_line line then
        (case tokens line of
           [] \<Rightarrow> None
         | mnemonic # rest \<Rightarrow>
             if instruction_map (upper mnemonic) = None
             then Some (UnknownInstruction (upper mnemonic))
             else (case rest of
                     [] \<Rightarrow> None
                   | tok # _ \<Rightarrow>
                       if \<not> isalpha tok \<and> int_of_str tok = None
                       then Some (InvalidOperand tok) else None))
      else None)"

definition referenced_label :: "string \<Rightarrow> string option" where
  "referenced_label line =
     (if is_instruction_line line then
        (case tokens line of
           mnemonic # tok # _ \<Rightarrow> if isalpha tok then Some tok else None
         | _ \<Rightarrow> None)
      else None)"

text \<open>
  The error of a whole source, in the words of the specification: the error of the first
  line in error; when no line is in error, UndefinedLabel with the first referenced label
  that no line declares; otherwise none.
\<close>

definition spec_compile_error :: "string list \<Rightarrow> compile_error option" where
  "spec_compile_error lines =
     (case List.find (\<lambda>l. spec_line_error l \<noteq> None) lines of
        Some l \<Rightarrow> spec_line_error l
      | None \<Rightarrow>
          map_option UndefinedLabel
            (List.find (\<lambda>name. name \<notin> set (List.map_filter declared_label lines))
               (List.map_filter referenced_label lines)))"

section \<open>Properties of the virtual machine\<close>

lemma execute_fetches:
  "fetches self instr operand \<Longrightarrow>
   execute_instruction self = dispatch (self\<lparr>ip := ip self + 1\<rparr>) instr operand"
  by (simp add: fetches_def execute_instruction_def)

subsection \<open>DIV\<close>

lemma DIV_quotient:
  assumes "fetches self DIV operand" and "stack self = b # a # rest" and "b \<noteq> 0"
  shows "execute_instruction self =
           (self\<lparr>ip := ip self + 1,
                 stack := \<lfloor>real_of_int a / real_of_int b\<rfloor> # rest\<rparr>, Returned True)"
  using assms(2,3) by (simp add: execute_fetches [OF assms(1)] floor_divide_of_int_eq)

lemma DIV_underflow:
  assumes "fetches self DIV operand" and "length (stack self) < 2"
  shows "execute_instruction self = (self\<lparr>ip := ip self + 1\<rparr>, Raised StackUnderflow)"
  using assms(2)
  by (cases "stack self") (simp_all add: execute_fetches [OF assms(1)] split: list.splits)

lemma DIV_by_zero:
  assumes "fetches self DIV operand" and "stack self = 0 # a # rest"
  shows "execute_instruction self =
           (self\<lparr>ip := ip self + 1, stack := a # rest\<rparr>, Raised DivisionByZero)"
  using assms(2) by (simp add: execute_fetches [OF assms(1)])

lemma DIV_example_pos:
  "map_sum id (map_option stdout)
     (compile_and_run (VirtualMachine 1024)
        ''PUSH 7\<newline>PUSH 2\<newline>DIV\<newline>PRINT\<newline>HALT'') = Inr (Some [Value 3])"
  by code_simp

lemma DIV_example_neg:
  "map_sum id (map_option stdout)
     (compile_and_run (VirtualMachine 1024)
        ''PUSH -7\<newline>PUSH 2\<newline>DIV\<newline>PRINT\<newline>HALT'') = Inr (Some [Value (- 4)])"
  by code_simp

text \<open>
  Claim C3. When DIV is executed, the top of the operand stack is the divisor \<open>b\<close> and the
  item below it the dividend \<open>a\<close>; both are popped and the floor of the real quotient
  \<open>a / b\<close> is pushed, so the result is rounded toward negative infinity. With fewer than two
  items the call raises StackUnderflow, and with a divisor equal to zero it raises
  DivisionByZero. Compiled and run, \<open>PUSH 7; PUSH 2; DIV; PRINT; HALT\<close> prints 3 and
  \<open>PUSH -7; PUSH 2; DIV; PRINT; HALT\<close> prints -4.
\<close>

theorem DIV_floor_division:
  "(\<forall>self operand. fetches self DIV operand \<longrightarrow>
      (\<forall>b a rest. stack self = b # a # rest \<and> b \<noteq> 0 \<longrightarrow>
         execute_instruction self =
           (self\<lparr>ip := ip self + 1,
                 stack := \<lfloor>real_of_int a / real_of_int b\<rfloor> # rest\<rparr>, Returned True))
    \<and> (length (stack self) < 2 \<longrightarrow>
         execute_instruction self = (self\<lparr>ip := ip self + 1\<rparr>, Raised StackUnderflow))
    \<and> (\<forall>a rest. stack self = 0 # a # rest \<longrightarrow>
         execute_instruction self =
           (self\<lparr>ip := ip self + 1, stack := a # rest\<rparr>, Raised DivisionByZero)))
   \<and> map_sum id (map_option stdout)
       (compile_and_run (VirtualMachine 1024)
          ''PUSH 7\<newline>PUSH 2\<newline>DIV\<newline>PRINT\<newline>HALT'') = Inr (Some [Value 3])
   \<and> map_sum id (map_option stdout)
       (compile_and_run (VirtualMachine 1024)
          ''PUSH -7\<newline>PUSH 2\<newline>DIV\<newline>PRINT\<newline>HALT'') = Inr (Some [Value (- 4)])"
  using DIV_quotient DIV_underflow DIV_by_zero DIV_example_pos DIV_example_neg
  by (intro conjI allI impI) blast+

theorem DIV_floor_division_witness:
  "fetches ((load_program (VirtualMachine 4) [(DIV, None)])\<lparr>stack := [2, - 7]\<rparr>) DIV None
   \<and> execute_instruction ((load_program (VirtualMachine 4) [(DIV, None)])\<lparr>stack := [2, - 7]\<rparr>) =
       ((load_program (VirtualMachine 4) [(DIV, None)])\<lparr>ip := 1, stack := [- 4]\<rparr>, Returned True)"
proof -
  let ?vm = "(load_program (VirtualMachine 4) [(DIV, None)])\<lparr>stack := [2, - 7]\<rparr>"
  have f: "fetches ?vm DIV None"
    by (simp add: fetches_def fetch_def load_program_def VirtualMachine_def)
  have s: "stack ?vm = 2 # (- 7) # [] \<and> (2::int) \<noteq> 0"
    by simp
  have "execute_instruction ?vm =
          (?vm\<lparr>ip := ip ?vm + 1,
                stack := \<lfloor>real_of_int (- 7) / real_of_int 2\<rfloor> # []\<rparr>, Returned True)"
    using DIV_floor_division f s by blast
  moreover have "\<lfloor>real_of_int (- 7) / real_of_int 2\<rfloor> = (- 4 :: int)"
    by (simp add: floor_divide_of_int_eq)
  ultimately show ?thesis
    using f by (simp add: load_program_def)
qed

subsection \<open>Stack depth and memory bounds\<close>

lemma underflow_iff:
  assumes "fetches self instr operand"
  shows "snd (execute_instruction self) = Raised StackUnderflow \<longleftrightarrow>
           (instr \<in> {POP, LOAD, JZ, JNZ, PRINT} \<and> stack self = []) \<or>
           (instr \<in> {ADD, SUB, MUL, DIV, STORE} \<and> length (stack self) < 2)"
  unfolding execute_fetches [OF assms]
  by (cases instr; cases "stack self"; cases "tl (stack self)")
     (auto split: option.splits list.splits)

lemma underflow_state:
  assumes "fetches self instr operand"
    and "snd (execute_instruction self) = Raised StackUnderflow"
  shows "execute_instruction self = (self\<lparr>ip := ip self + 1\<rparr>, Raised StackUnderflow)"
  using assms(2) unfolding execute_fetches [OF assms(1)]
  by (cases instr; cases "stack self"; cases "tl (stack self)")
     (auto split: option.splits list.splits if_splits)

lemma STORE_out_of_bounds:
  assumes "fetches self STORE operand" and "stack self = val # address # rest"
    and "address < 0 \<or> int (length (memory self)) \<le> address"
  shows "execute_instruction self =
           (self\<lparr>ip := ip self + 1, stack := rest\<rparr>, Raised (MemoryOutOfBounds address))"
  using assms(2,3) by (auto simp add: execute_fetches [OF assms(1)])

lemma LOAD_out_of_bounds:
  assumes "fetches self LOAD operand" and "stack self = address # rest"
    and "address < 0 \<or> int (length (memory self)) \<le> address"
  shows "execute_instruction self =
           (self\<lparr>ip := ip self + 1, stack := rest\<rparr>, Raised (MemoryOutOfBounds address))"
  using assms(2,3) by (auto simp add: execute_fetches [OF assms(1)])

lemma ADD_example:
  "map_sum id (map_option stdout)
     (compile_and_run (VirtualMachine 1024) ''ADD\<newline>HALT'')
   = Inr (Some [RuntimeError StackUnderflow])"
  by code_simp

lemma STORE_example:
  "map_sum id (map_option stdout)
     (compile_and_run (VirtualMachine 1024) ''PUSH 1024\<newline>PUSH 0\<newline>STORE\<newline>HALT'')
   = Inr (Some [RuntimeError (MemoryOutOfBounds 1024)])"
  by code_simp

text \<open>
  Claim C6. The opcodes that consume operand-stack items are POP, LOAD, JZ, JNZ and PRINT
  (one item) and ADD, SUB, MUL, DIV and STORE (two items). A call of
  \<open>execute_instruction\<close> raises StackUnderflow exactly when the fetched opcode is one of
  these and the stack holds fewer items, and then nothing but the instruction pointer, which
  the fetch has advanced, has changed: stack, memory, call stack and output are as before.
  STORE and LOAD raise MemoryOutOfBounds with the popped address when it is negative or not
  below the memory size. Compiled and run, \<open>ADD; HALT\<close> reports StackUnderflow, and
  \<open>PUSH 1024; PUSH 0; STORE; HALT\<close> on a memory of 1024 cells reports
  MemoryOutOfBounds 1024.
\<close>

theorem stack_and_memory_checks:
  "(\<forall>self instr operand. fetches self instr operand \<longrightarrow>
      (snd (execute_instruction self) = Raised StackUnderflow \<longleftrightarrow>
         (instr \<in> {POP, LOAD, JZ, JNZ, PRINT} \<and> stack self = []) \<or>
         (instr \<in> {ADD, SUB, MUL, DIV, STORE} \<and> length (stack self) < 2))
    \<and> (snd (execute_instruction self) = Raised StackUnderflow \<longrightarrow>
         execute_instruction self = (self\<lparr>ip := ip self + 1\<rparr>, Raised StackUnderflow)))
   \<and> (\<forall>self operand val address rest.
        fetches self STORE operand \<and> stack self = val # address # rest \<and>
        (address < 0 \<or> int (length (memory self)) \<le> address) \<longrightarrow>
        execute_instruction self =
          (self\<lparr>ip := ip self + 1, stack := rest\<rparr>, Raised (MemoryOutOfBounds address)))
   \<and> (\<forall>self operand address rest.
        fetches self LOAD operand \<and> stack self = address # rest \<and>
        (address < 0 \<or> int (length (memory self)) \<le> address) \<longrightarrow>
        execute_instruction self =
          (self\<lparr>ip := ip self + 1, stack := rest\<rparr>, Raised (MemoryOutOfBounds address)))
   \<and> map_sum id (map_option stdout)
       (compile_and_run (VirtualMachine 1024) ''ADD\<newline>HALT'')
       = Inr (Some [RuntimeError StackUnderflow])
   \<and> map_sum id (map_option stdout)
       (compile_and_run (VirtualMachine 1024) ''PUSH 1024\<newline>PUSH 0\<newline>STORE\<newline>HALT'')
       = Inr (Some [RuntimeError (MemoryOutOfBounds 1024)])"
proof (intro conjI allI impI)
  fix self instr operand assume "fetches self instr operand"
  then show "snd (execute_instruction self) = Raised StackUnderflow \<longleftrightarrow>
         (instr \<in> {POP, LOAD, JZ, JNZ, PRINT} \<and> stack self = []) \<or>
         (instr \<in> {ADD, SUB, MUL, DIV, STORE} \<and> length (stack self) < 2)"
    by (rule underflow_iff)
next
  fix self instr operand
  assume "fetches self instr operand"
    and "snd (execute_instruction self) = Raised StackUnderflow"
  then show "execute_instruction self = (self\<lparr>ip := ip self + 1\<rparr>, Raised StackUnderflow)"
    by (rule underflow_state)
next
  fix self operand val address rest
  assume "fetches self STORE operand \<and> stack self = val # address # rest \<and>
        (address < 0 \<or> int (length (memory self)) \<le> address)"
  then show "execute_instruction self =
          (self\<lparr>ip := ip self + 1, stack := rest\<rparr>, Raised (MemoryOutOfBounds address))"
    using STORE_out_of_bounds by blast
next
  fix self operand address rest
  assume "fetches self LOAD operand \<and> stack self = address # rest \<and>
        (address < 0 \<or> int (length (memory self)) \<le> address)"
  then show "execute_instruction self =
          (self\<lparr>ip := ip self + 1, stack := rest\<rparr>, Raised (MemoryOutOfBounds address))"
    using LOAD_out_of_bounds by blast
qed (rule ADD_example STORE_example)+

theorem stack_and_memory_checks_witness:
  "fetches ((load_program (VirtualMachine 4) [(STORE, None)])\<lparr>stack := [0, 4]\<rparr>) STORE None
   \<and> execute_instruction ((load_program (VirtualMachine 4) [(STORE, None)])\<lparr>stack := [0, 4]\<rparr>) =
       ((load_program (VirtualMachine 4) [(STORE, None)])\<lparr>ip := 1\<rparr>, Raised (MemoryOutOfBounds 4))
   \<and> fetches (load_program (VirtualMachine 4) [(ADD, None)]) ADD None
   \<and> execute_instruction (load_program (VirtualMachine 4) [(ADD, None)]) =
       ((load_program (VirtualMachine 4) [(ADD, None)])\<lparr>ip := 1\<rparr>, Raised StackUnderflow)"
proof -
  let ?s = "(load_program (VirtualMachine 4) [(STORE, None)])\<lparr>stack := [0, 4]\<rparr>"
  let ?a = "load_program (VirtualMachine 4) [(ADD, None)]"
  have fs: "fetches ?s STORE None"
    by (simp add: fetches_def fetch_def load_program_def VirtualMachine_def)
  have hs: "stack ?s = 0 # 4 # [] \<and> ((4::int) < 0 \<or> int (length (memory ?s)) \<le> 4)"
    by (simp add: load_program_def VirtualMachine_def)
  have 1: "execute_instruction ?s =
             (?s\<lparr>ip := ip ?s + 1, stack := []\<rparr>, Raised (MemoryOutOfBounds 4))"
    using stack_and_memory_checks fs hs by blast
  have fa: "fetches ?a ADD None"
    by (simp add: fetches_def fetch_def load_program_def VirtualMachine_def)
  have ha: "ADD \<in> {ADD, SUB, MUL, DIV, STORE} \<and> length (stack ?a) < 2"
    by (simp add: load_program_def)
  have "snd (execute_instruction ?a) = Raised StackUnderflow"
    using stack_and_memory_checks fa ha by blast
  then have 2: "execute_instruction ?a = (?a\<lparr>ip := ip ?a + 1\<rparr>, Raised StackUnderflow)"
    using stack_and_memory_checks fa by blast
  show ?thesis
    using fs fa 1 2 by (simp add: load_program_def)
qed

subsection \<open>JZ and JNZ\<close>

lemma JZ_cases:
  assumes "fetches self JZ operand"
  shows "(stack self = [] \<longrightarrow>
            execute_instruction self = (self\<lparr>ip := ip self + 1\<rparr>, Raised StackUnderflow))
       \<and> (\<forall>val rest. stack self = val # rest \<longrightarrow>
            execute_instruction self =
              (self\<lparr>ip := (if val = 0 \<and> operand \<noteq> None then the operand else ip self + 1),
                    stack := rest\<rparr>, Returned True))"
  unfolding execute_fetches [OF assms]
  by (cases operand) auto

lemma JNZ_cases:
  assumes "fetches self JNZ operand"
  shows "(stack self = [] \<longrightarrow>
            execute_instruction self = (self\<lparr>ip := ip self + 1\<rparr>, Raised StackUnderflow))
       \<and> (\<forall>val rest. stack self = val # rest \<longrightarrow>
            execute_instruction self =
              (self\<lparr>ip := (if val \<noteq> 0 \<and> operand \<noteq> None then the operand else ip self + 1),
                    stack := rest\<rparr>, Returned True))"
  unfolding execute_fetches [OF assms]
  by (cases operand) auto

text \<open>
  Claim C8. JZ and JNZ raise StackUnderflow on an empty operand stack; otherwise they pop
  exactly one value and return normally, whatever the operand. The instruction pointer
  becomes the operand when the popped value meets the condition (zero for JZ, not zero for
  JNZ) and an operand is present; in every other case, in particular when the condition is
  met and the operand is absent, it is the advanced pointer: the jump does nothing and no
  MissingOperand is raised.
\<close>

theorem JZ_JNZ_pop_and_absent_operand:
  "(\<forall>self operand. fetches self JZ operand \<longrightarrow>
      (stack self = [] \<longrightarrow>
         execute_instruction self = (self\<lparr>ip := ip self + 1\<rparr>, Raised StackUnderflow))
    \<and> (\<forall>val rest. stack self = val # rest \<longrightarrow>
         execute_instruction self =
           (self\<lparr>ip := (if val = 0 \<and> operand \<noteq> None then the operand else ip self + 1),
                 stack := rest\<rparr>, Returned True)))
   \<and> (\<forall>self operand. fetches self JNZ operand \<longrightarrow>
      (stack self = [] \<longrightarrow>
         execute_instruction self = (self\<lparr>ip := ip self + 1\<rparr>, Raised StackUnderflow))
    \<and> (\<forall>val rest. stack self = val # rest \<longrightarrow>
         execute_instruction self =
           (self\<lparr>ip := (if val \<noteq> 0 \<and> operand \<noteq> None then the operand else ip self + 1),
                 stack := rest\<rparr>, Returned True)))
   \<and> (\<forall>self rest. fetches self JZ None \<and> stack self = 0 # rest \<longrightarrow>
        execute_instruction self = (self\<lparr>ip := ip self + 1, stack := rest\<rparr>, Returned True))
   \<and> (\<forall>self val rest. fetches self JNZ None \<and> stack self = val # rest \<and> val \<noteq> 0 \<longrightarrow>
        execute_instruction self = (self\<lparr>ip := ip self + 1, stack := rest\<rparr>, Returned True))"
proof (intro conjI allI impI)
  fix self rest assume "fetches self JZ None \<and> stack self = 0 # rest"
  then show "execute_instruction self = (self\<lparr>ip := ip self + 1, stack := rest\<rparr>, Returned True)"
    using JZ_cases [of self None] by simp
next
  fix self val rest assume "fetches self JNZ None \<and> stack self = val # rest \<and> val \<noteq> 0"
  then show "execute_instruction self = (self\<lparr>ip := ip self + 1, stack := rest\<rparr>, Returned True)"
    using JNZ_cases [of self None] by simp
qed (use JZ_cases JNZ_cases in blast)+

theorem JZ_JNZ_pop_and_absent_operand_witness:
  "fetches ((load_program (VirtualMachine 4) [(JZ, None), (HALT, None)])\<lparr>stack := [0, 5]\<rparr>) JZ None
   \<and> execute_instruction ((load_program (VirtualMachine 4) [(JZ, None), (HALT, None)])\<lparr>stack := [0, 5]\<rparr>) =
       ((load_program (VirtualMachine 4) [(JZ, None), (HALT, None)])\<lparr>ip := 1, stack := [5]\<rparr>,
        Returned True)"
proof -
  let ?vm = "(load_program (VirtualMachine 4) [(JZ, None), (HALT, None)])\<lparr>stack := [0, 5]\<rparr>"
  have f: "fetches ?vm JZ None \<and> stack ?vm = 0 # [5]"
    by (simp add: fetches_def fetch_def load_program_def VirtualMachine_def)
  have "execute_instruction ?vm = (?vm\<lparr>ip := ip ?vm + 1, stack := [5]\<rparr>, Returned True)"
    using JZ_JNZ_pop_and_absent_operand f by blast
  then show ?thesis
    using f by (simp add: load_program_def)
qed

subsection \<open>load\_program\<close>

lemma memory_example:
  "map_option (\<lambda>vm1. map_option stdout
       (run (load_program vm1 [(PUSH, Some 5), (LOAD, None), (PRINT, None), (HALT, None)])))
     (run (load_program (VirtualMachine 1024)
        [(PUSH, Some 5), (PUSH, Some 42), (STORE, None), (HALT, None)]))
   = Some (Some [Value 42])"
  by code_simp

text \<open>
  Claim C7. \<open>load_program\<close> installs the program, sets the instruction pointer to 0 and
  empties the operand stack and the call stack; memory (and the running flag and the output
  written so far) are exactly as before. Hence the memory a program leaves behind is the
  memory the next program loaded on the same machine starts with: after a run that stores 42
  in cell 5, a second program that loads cell 5 prints 42.
\<close>

theorem load_program_frame:
  "program (load_program self prog) = prog
   \<and> ip (load_program self prog) = 0
   \<and> stack (load_program self prog) = []
   \<and> call_stack (load_program self prog) = []
   \<and> memory (load_program self prog) = memory self
   \<and> running (load_program self prog) = running self
   \<and> stdout (load_program self prog) = stdout self
   \<and> memory (load_program (load_program self prog) prog') = memory self
   \<and> (\<forall>self'. run (load_program self prog) = Some self' \<longrightarrow>
        memory (load_program self' prog') = memory self')
   \<and> map_option (\<lambda>vm1. map_option stdout
         (run (load_program vm1 [(PUSH, Some 5), (LOAD, None), (PRINT, None), (HALT, None)])))
       (run (load_program (VirtualMachine 1024)
          [(PUSH, Some 5), (PUSH, Some 42), (STORE, None), (HALT, None)]))
       = Some (Some [Value 42])"
  using memory_example by (simp add: load_program_def)

lemma load_program_frame_run:
  "run (load_program ((VirtualMachine 2)\<lparr>memory := [7, 8], stack := [1], ip := 3\<rparr>) [(HALT, None)])
   = Some \<lparr>stack = [], memory = [7, 8], call_stack = [], program = [(HALT, None)], ip = 1,
           running = False, stdout = []\<rparr>"
  by code_simp

theorem load_program_frame_witness:
  "run (load_program ((VirtualMachine 2)\<lparr>memory := [7, 8], stack := [1], ip := 3\<rparr>) [(HALT, None)])
     = Some \<lparr>stack = [], memory = [7, 8], call_stack = [], program = [(HALT, None)], ip = 1,
             running = False, stdout = []\<rparr>
   \<and> memory (load_program
        \<lparr>stack = [], memory = [7, 8], call_stack = [], program = [(HALT, None)], ip = 1,
         running = False, stdout = []\<rparr> [(PUSH, Some 1)]) = [7, 8]
   \<and> ip (load_program ((VirtualMachine 2)\<lparr>memory := [7, 8], stack := [1], ip := 3\<rparr>)
        [(HALT, None)]) = 0"
proof -
  let ?vm = "(VirtualMachine 2)\<lparr>memory := [7, 8], stack := [1], ip := 3\<rparr>"
  let ?vm' = "\<lparr>stack = [], memory = [7, 8], call_stack = [], program = [(HALT, None)], ip = 1,
               running = False, stdout = []\<rparr>"
  note r = load_program_frame_run
  have "memory (load_program ?vm' [(PUSH, Some 1)]) = memory ?vm'"
    using load_program_frame [of ?vm "[(HALT, None)]" "[(PUSH, Some 1)]"] r by blast
  moreover have "ip (load_program ?vm [(HALT, None)]) = 0"
    using load_program_frame [of ?vm "[(HALT, None)]" "[]"] by blast
  ultimately show ?thesis
    using r by simp
qed

subsection \<open>run and runtime faults\<close>

lemma dispatch_running:
  "running (fst (dispatch self instr operand)) = running self"
  by (cases instr) (auto split: option.splits list.splits)

lemma execute_instruction_running:
  "running (fst (execute_instruction self)) = running self"
  by (auto simp add: execute_instruction_def dispatch_running split: option.splits)

lemma run_loop_continues:
  "continues n self = Some s \<Longrightarrow> running self \<Longrightarrow> run_loop self = run_loop s \<and> running s"
proof (induction n arbitrary: self)
  case 0
  then show ?case by simp
next
  case (Suc n)
  obtain self' r where e: "execute_instruction self = (self', r)"
    by (cases "execute_instruction self")
  with Suc.prems(1) have r: "r = Returned True" and c: "continues n self' = Some s"
    by (auto split: outcome.splits bool.splits)
  have run': "running self'"
    using execute_instruction_running [of self] e Suc.prems(2) by simp
  have "run_loop self = run_loop self'"
    using Suc.prems(2) e r by (subst run_loop.simps) simp
  with Suc.IH [OF c run'] show ?case by simp
qed

lemma run_fault:
  assumes "continues n (self\<lparr>running := True\<rparr>) = Some s"
    and "execute_instruction s = (s', Raised e)"
  shows "run self = Some (s'\<lparr>stdout := stdout s' @ [RuntimeError e], running := False\<rparr>)"
proof -
  have "run_loop (self\<lparr>running := True\<rparr>) = run_loop s \<and> running s"
    using run_loop_continues [OF assms(1)] by simp
  moreover have "running s \<Longrightarrow> run_loop s = Some (s', Some e)"
    using assms(2) by (subst run_loop.simps) simp
  ultimately show ?thesis
    by (simp add: run_def)
qed

lemma run_not_running:
  "run self = Some s \<Longrightarrow> \<not> running s"
  by (auto simp add: run_def split: option.splits prod.splits)

lemma DIV_zero_example:
  "compile_and_run (VirtualMachine 4) ''PUSH 1\<newline>PUSH 0\<newline>DIV\<newline>HALT'' =
     Inr (Some \<lparr>stack = [1], memory = [0, 0, 0, 0], call_stack = [],
                program = [(PUSH, Some 1), (PUSH, Some 0), (DIV, None), (HALT, None)],
                ip = 3, running = False, stdout = [RuntimeError DivisionByZero]\<rparr>)"
  by code_simp

text \<open>
  Claim C5. If, in a call of \<open>run\<close>, some number of calls of \<open>execute_instruction\<close> return
  true and the next one raises, then \<open>run\<close> returns (it does not raise, and it executes no
  further instruction): the machine is left in the state in which the exception was raised,
  with the message for the fault written to the output and the running flag cleared. A run
  that returns always leaves the running flag cleared. Compiled and run,
  \<open>PUSH 1; PUSH 0; DIV; HALT\<close> returns with the message for DivisionByZero; the machine
  stands before the HALT, which it never executes.
\<close>

theorem run_fault_is_terminal:
  "(\<forall>self n s s' e.
      continues n (self\<lparr>running := True\<rparr>) = Some s \<and> execute_instruction s = (s', Raised e) \<longrightarrow>
      run self = Some (s'\<lparr>stdout := stdout s' @ [RuntimeError e], running := False\<rparr>))
   \<and> (\<forall>self s. run self = Some s \<longrightarrow> \<not> running s)
   \<and> compile_and_run (VirtualMachine 4) ''PUSH 1\<newline>PUSH 0\<newline>DIV\<newline>HALT'' =
       Inr (Some \<lparr>stack = [1], memory = [0, 0, 0, 0], call_stack = [],
                  program = [(PUSH, Some 1), (PUSH, Some 0), (DIV, None), (HALT, None)],
                  ip = 3, running = False, stdout = [RuntimeError DivisionByZero]\<rparr>)"
  using run_fault run_not_running DIV_zero_example by blast

lemma fault_witness_steps2:
  "continues 2 ((load_program (VirtualMachine 0) [(PUSH, Some 3), (POP, None), (POP, None)])
                  \<lparr>running := True\<rparr>)
   = Some \<lparr>stack = [], memory = [], call_stack = [],
           program = [(PUSH, Some 3), (POP, None), (POP, None)], ip = 2, running = True,
           stdout = []\<rparr>"
  by code_simp

lemma fault_witness_raise:
  "execute_instruction \<lparr>stack = [], memory = [], call_stack = [],
           program = [(PUSH, Some 3), (POP, None), (POP, None)], ip = 2, running = True,
           stdout = []\<rparr>
   = (\<lparr>stack = [], memory = [], call_stack = [],
           program = [(PUSH, Some 3), (POP, None), (POP, None)], ip = 3, running = True,
           stdout = []\<rparr>, Raised StackUnderflow)"
  by code_simp

theorem run_fault_is_terminal_witness:
  "continues 2 ((load_program (VirtualMachine 0) [(PUSH, Some 3), (POP, None), (POP, None)])
                  \<lparr>running := True\<rparr>)
     = Some \<lparr>stack = [], memory = [], call_stack = [],
             program = [(PUSH, Some 3), (POP, None), (POP, None)], ip = 2, running = True,
             stdout = []\<rparr>
   \<and> run (load_program (VirtualMachine 0) [(PUSH, Some 3), (POP, None), (POP, None)])
     = Some \<lparr>stack = [], memory = [], call_stack = [],
             program = [(PUSH, Some 3), (POP, None), (POP, None)], ip = 3, running = False,
             stdout = [RuntimeError StackUnderflow]\<rparr>"
proof -
  have "run (load_program (VirtualMachine 0) [(PUSH, Some 3), (POP, None), (POP, None)])
        = Some (\<lparr>stack = [], memory = [], call_stack = [],
             program = [(PUSH, Some 3), (POP, None), (POP, None)], ip = 3, running = True,
             stdout = []\<rparr>\<lparr>stdout := stdout \<lparr>stack = [], memory = [], call_stack = [],
             program = [(PUSH, Some 3), (POP, None), (POP, None)], ip = 3, running = True,
             stdout = []\<rparr> @ [RuntimeError StackUnderflow], running := False\<rparr>)"
    using run_fault_is_terminal fault_witness_steps2 fault_witness_raise by blast
  then show ?thesis
    using fault_witness_steps2 by simp
qed

subsection \<open>Fetch, jumps, CALL and RET\<close>

lemma JMP_absolute:
  "fetches self JMP (Some target) \<Longrightarrow>
   execute_instruction self = (self\<lparr>ip := target\<rparr>, Returned True)"
  by (simp add: execute_fetches)

lemma CALL_absolute:
  "fetches self CALL (Some target) \<Longrightarrow>
   execute_instruction self =
     (self\<lparr>ip := target, call_stack := (ip self + 1) # call_stack self\<rparr>, Returned True)"
  by (simp add: execute_fetches)

lemma RET_pops:
  "fetches self RET operand \<Longrightarrow> call_stack self = ret # rest \<Longrightarrow>
   execute_instruction self = (self\<lparr>ip := ret, call_stack := rest\<rparr>, Returned True)"
  by (simp add: execute_fetches)

lemma JZ_absolute:
  "fetches self JZ (Some target) \<Longrightarrow> stack self = 0 # rest \<Longrightarrow>
   execute_instruction self = (self\<lparr>ip := target, stack := rest\<rparr>, Returned True)"
  by (simp add: execute_fetches)

lemma JNZ_absolute:
  "fetches self JNZ (Some target) \<Longrightarrow> stack self = val # rest \<Longrightarrow> val \<noteq> 0 \<Longrightarrow>
   execute_instruction self = (self\<lparr>ip := target, stack := rest\<rparr>, Returned True)"
  by (simp add: execute_fetches)

lemma call_example_compile:
  "compile ''CALL sub\<newline>HALT\<newline>sub:\<newline>PUSH 9\<newline>PRINT\<newline>RET'' =
     Inr [(CALL, Some 2), (HALT, None), (PUSH, Some 9), (PRINT, None), (RET, None)]"
  by code_simp

lemma call_example_trace:
  "continues 4 ((load_program (VirtualMachine 2)
       [(CALL, Some 2), (HALT, None), (PUSH, Some 9), (PRINT, None), (RET, None)])
       \<lparr>running := True\<rparr>) =
     Some \<lparr>stack = [], memory = [0, 0], call_stack = [],
           program = [(CALL, Some 2), (HALT, None), (PUSH, Some 9), (PRINT, None), (RET, None)],
           ip = 1, running = True, stdout = [Value 9]\<rparr>"
  by code_simp

lemma call_example_halt:
  "execute_instruction
     \<lparr>stack = [], memory = [0, 0], call_stack = [],
      program = [(CALL, Some 2), (HALT, None), (PUSH, Some 9), (PRINT, None), (RET, None)],
      ip = 1, running = True, stdout = [Value 9]\<rparr> =
     (\<lparr>stack = [], memory = [0, 0], call_stack = [],
       program = [(CALL, Some 2), (HALT, None), (PUSH, Some 9), (PRINT, None), (RET, None)],
       ip = 2, running = True, stdout = [Value 9]\<rparr>, Returned False)"
  by code_simp

lemma call_example_run:
  "compile_and_run (VirtualMachine 2)
     ''CALL sub\<newline>HALT\<newline>sub:\<newline>PUSH 9\<newline>PRINT\<newline>RET'' =
     Inr (Some \<lparr>stack = [], memory = [0, 0], call_stack = [],
           program = [(CALL, Some 2), (HALT, None), (PUSH, Some 9), (PRINT, None), (RET, None)],
           ip = 2, running = False, stdout = [Value 9]\<rparr>)"
  by code_simp

text \<open>
  Claim C2, as stated, at the five lines \<open>CALL sub\<close>, \<open>HALT\<close>, \<open>sub: PUSH 9\<close>, \<open>PRINT\<close>,
  \<open>RET\<close>: the line \<open>sub: PUSH 9\<close> matches the label pattern, so \<open>parse_line\<close> records the
  label and returns nothing for the line, and the PUSH is not compiled. The program has
  four instructions; the call lands on PRINT with an empty stack and the run reports
  StackUnderflow instead of printing 9.
\<close>

theorem call_example_one_line_counterexample:
  "compile ''CALL sub\<newline>HALT\<newline>sub: PUSH 9\<newline>PRINT\<newline>RET'' =
     Inr [(CALL, Some 2), (HALT, None), (PRINT, None), (RET, None)]
   \<and> map_sum id (map_option stdout)
       (compile_and_run (VirtualMachine 1024)
          ''CALL sub\<newline>HALT\<newline>sub: PUSH 9\<newline>PRINT\<newline>RET'') =
       Inr (Some [RuntimeError StackUnderflow])
   \<and> map_sum id (map_option stdout)
       (compile_and_run (VirtualMachine 1024)
          ''CALL sub\<newline>HALT\<newline>sub: PUSH 9\<newline>PRINT\<newline>RET'') \<noteq>
       Inr (Some [Value 9])"
proof -
  have 1: "compile ''CALL sub\<newline>HALT\<newline>sub: PUSH 9\<newline>PRINT\<newline>RET'' =
     Inr [(CALL, Some 2), (HALT, None), (PRINT, None), (RET, None)]"
    by code_simp
  have 2: "map_sum id (map_option stdout)
       (compile_and_run (VirtualMachine 1024)
          ''CALL sub\<newline>HALT\<newline>sub: PUSH 9\<newline>PRINT\<newline>RET'') =
       Inr (Some [RuntimeError StackUnderflow])"
    by code_simp
  show ?thesis
    unfolding 2 using 1 by simp
qed

text \<open>
  Claim C2, amended. A call of \<open>execute_instruction\<close> that fetches an instruction advances
  the instruction pointer by one and then dispatches. JMP and CALL with an operand, JZ on a
  popped zero and JNZ on a popped non-zero value set the instruction pointer to the operand
  itself, an absolute index; CALL first pushes the advanced pointer on the call stack, and
  RET pops the call stack into the instruction pointer. With the label on a line of its own,
  the program \<open>CALL sub\<close>, \<open>HALT\<close>, \<open>sub:\<close>, \<open>PUSH 9\<close>, \<open>PRINT\<close>, \<open>RET\<close> compiles to five
  instructions; its run prints exactly 9 and, after four instructions (CALL, PUSH, PRINT,
  RET), fetches the HALT at index 1 with an empty call stack and stops there, the
  instruction pointer at 2.
\<close>

theorem call_return_round_trip:
  "(\<forall>self instr operand. fetches self instr operand \<longrightarrow>
      execute_instruction self = dispatch (self\<lparr>ip := ip self + 1\<rparr>) instr operand)
   \<and> (\<forall>self target. fetches self JMP (Some target) \<longrightarrow>
        execute_instruction self = (self\<lparr>ip := target\<rparr>, Returned True))
   \<and> (\<forall>self target. fetches self CALL (Some target) \<longrightarrow>
        execute_instruction self =
          (self\<lparr>ip := target, call_stack := (ip self + 1) # call_stack self\<rparr>, Returned True))
   \<and> (\<forall>self operand ret rest. fetches self RET operand \<and> call_stack self = ret # rest \<longrightarrow>
        execute_instruction self = (self\<lparr>ip := ret, call_stack := rest\<rparr>, Returned True))
   \<and> (\<forall>self target rest. fetches self JZ (Some target) \<and> stack self = 0 # rest \<longrightarrow>
        execute_instruction self = (self\<lparr>ip := target, stack := rest\<rparr>, Returned True))
   \<and> (\<forall>self target val rest.
        fetches self JNZ (Some target) \<and> stack self = val # rest \<and> val \<noteq> 0 \<longrightarrow>
        execute_instruction self = (self\<lparr>ip := target, stack := rest\<rparr>, Returned True))
   \<and> compile ''CALL sub\<newline>HALT\<newline>sub:\<newline>PUSH 9\<newline>PRINT\<newline>RET'' =
       Inr [(CALL, Some 2), (HALT, None), (PUSH, Some 9), (PRINT, None), (RET, None)]
   \<and> continues 4 ((load_program (VirtualMachine 2)
         [(CALL, Some 2), (HALT, None), (PUSH, Some 9), (PRINT, None), (RET, None)])
         \<lparr>running := True\<rparr>) =
       Some \<lparr>stack = [], memory = [0, 0], call_stack = [],
             program = [(CALL, Some 2), (HALT, None), (PUSH, Some 9), (PRINT, None), (RET, None)],
             ip = 1, running = True, stdout = [Value 9]\<rparr>
   \<and> execute_instruction
       \<lparr>stack = [], memory = [0, 0], call_stack = [],
        program = [(CALL, Some 2), (HALT, None), (PUSH, Some 9), (PRINT, None), (RET, None)],
        ip = 1, running = True, stdout = [Value 9]\<rparr> =
       (\<lparr>stack = [], memory = [0, 0], call_stack = [],
         program = [(CALL, Some 2), (HALT, None), (PUSH, Some 9), (PRINT, None), (RET, None)],
         ip = 2, running = True, stdout = [Value 9]\<rparr>, Returned False)
   \<and> compile_and_run (VirtualMachine 2)
       ''CALL sub\<newline>HALT\<newline>sub:\<newline>PUSH 9\<newline>PRINT\<newline>RET'' =
       Inr (Some \<lparr>stack = [], memory = [0, 0], call_stack = [],
             program = [(CALL, Some 2), (HALT, None), (PUSH, Some 9), (PRINT, None), (RET, None)],
             ip = 2, running = False, stdout = [Value 9]\<rparr>)"
proof (intro conjI allI impI)
  fix self operand ret rest
  assume "fetches self RET operand \<and> call_stack self = ret # rest"
  then show "execute_instruction self = (self\<lparr>ip := ret, call_stack := rest\<rparr>, Returned True)"
    using RET_pops by blast
next
  fix self target rest
  assume "fetches self JZ (Some target) \<and> stack self = 0 # rest"
  then show "execute_instruction self = (self\<lparr>ip := target, stack := rest\<rparr>, Returned True)"
    using JZ_absolute by blast
next
  fix self target val rest
  assume "fetches self JNZ (Some target) \<and> stack self = val # rest \<and> val \<noteq> 0"
  then show "execute_instruction self = (self\<lparr>ip := target, stack := rest\<rparr>, Returned True)"
    using JNZ_absolute by blast
qed (rule execute_fetches JMP_absolute CALL_absolute call_example_compile call_example_trace
      call_example_halt call_example_run, assumption?)+

theorem call_return_round_trip_witness:
  "fetches ((load_program (VirtualMachine 0) [(CALL, Some 7), (RET, None)])\<lparr>ip := 0\<rparr>) CALL (Some 7)
   \<and> execute_instruction ((load_program (VirtualMachine 0) [(CALL, Some 7), (RET, None)])\<lparr>ip := 0\<rparr>) =
       ((load_program (VirtualMachine 0) [(CALL, Some 7), (RET, None)])
          \<lparr>ip := 7, call_stack := [1]\<rparr>, Returned True)
   \<and> fetches ((load_program (VirtualMachine 0) [(CALL, Some 7), (RET, None)])
               \<lparr>ip := 1, call_stack := [5]\<rparr>) RET None
   \<and> execute_instruction ((load_program (VirtualMachine 0) [(CALL, Some 7), (RET, None)])
               \<lparr>ip := 1, call_stack := [5]\<rparr>) =
       ((load_program (VirtualMachine 0) [(CALL, Some 7), (RET, None)])
          \<lparr>ip := 5, call_stack := []\<rparr>, Returned True)"
proof -
  let ?c = "(load_program (VirtualMachine 0) [(CALL, Some 7), (RET, None)])\<lparr>ip := 0\<rparr>"
  let ?r = "(load_program (VirtualMachine 0) [(CALL, Some 7), (RET, None)])
              \<lparr>ip := 1, call_stack := [5]\<rparr>"
  have fc: "fetches ?c CALL (Some 7)"
    by (simp add: fetches_def fetch_def load_program_def VirtualMachine_def)
  have fr: "fetches ?r RET None \<and> call_stack ?r = 5 # []"
    by (simp add: fetches_def fetch_def load_program_def VirtualMachine_def)
  have 1: "execute_instruction ?c =
             (?c\<lparr>ip := 7, call_stack := (ip ?c + 1) # call_stack ?c\<rparr>, Returned True)"
    using call_return_round_trip fc by blast
  have 2: "execute_instruction ?r = (?r\<lparr>ip := 5, call_stack := []\<rparr>, Returned True)"
    using call_return_round_trip fr by blast
  show ?thesis
    using fc fr 1 2 by (simp add: load_program_def)
qed

subsection \<open>Negative instruction pointers\<close>

lemma negative_ip_in_range:
  assumes "ip self < 0" and "- ip self \<le> int (length (program self))"
  shows "execute_instruction self =
           dispatch (self\<lparr>ip := ip self + 1\<rparr>)
             (fst (rev (program self) ! (nat (- ip self) - 1)))
             (snd (rev (program self) ! (nat (- ip self) - 1)))"
proof -
  let ?n = "length (program self)"
  have lt: "nat (- ip self) - 1 < ?n"
    using assms by linarith
  have idx: "?n - Suc (nat (- ip self) - 1) = nat (int ?n + ip self)"
    using assms by linarith
  have "rev (program self) ! (nat (- ip self) - 1) = program self ! nat (int ?n + ip self)"
    using rev_nth [OF lt] idx by simp
  then show ?thesis
    using assms by (simp add: execute_instruction_def fetch_def split: prod.splits)
qed

lemma negative_ip_out_of_range:
  assumes "ip self < 0" and "int (length (program self)) < - ip self"
  shows "execute_instruction self = (self, Raised FetchIndexError)"
  using assms by (simp add: execute_instruction_def fetch_def)

lemma negative_example:
  "compile_and_run (VirtualMachine 0) ''PUSH 3\<newline>JMP -2\<newline>PRINT\<newline>HALT'' =
     Inr (Some \<lparr>stack = [], memory = [], call_stack = [],
           program = [(PUSH, Some 3), (JMP, Some (- 2)), (PRINT, None), (HALT, None)],
           ip = 0, running = False, stdout = [Value 3]\<rparr>)"
  by code_simp

text \<open>
  Claim C9, as stated, at the one-line program \<open>JMP -2\<close>: the jump sets the instruction
  pointer to -2, the end-of-program test passes, and the fetch \<open>program[-2]\<close> of a list of
  length 1 raises \<open>IndexError\<close>, which \<open>run\<close> reports as a runtime error: the execution
  faults.
\<close>

theorem negative_target_counterexample:
  "execute_instruction ((load_program (VirtualMachine 0) [(JMP, Some (- 2))])\<lparr>ip := - 2\<rparr>) =
     ((load_program (VirtualMachine 0) [(JMP, Some (- 2))])\<lparr>ip := - 2\<rparr>, Raised FetchIndexError)
   \<and> compile_and_run (VirtualMachine 0) ''JMP -2'' =
       Inr (Some \<lparr>stack = [], memory = [], call_stack = [], program = [(JMP, Some (- 2))],
             ip = - 2, running = False, stdout = [RuntimeError FetchIndexError]\<rparr>)"
proof -
  have 1: "execute_instruction ((load_program (VirtualMachine 0) [(JMP, Some (- 2))])\<lparr>ip := - 2\<rparr>) =
     ((load_program (VirtualMachine 0) [(JMP, Some (- 2))])\<lparr>ip := - 2\<rparr>, Raised FetchIndexError)"
    by code_simp
  have 2: "compile_and_run (VirtualMachine 0) ''JMP -2'' =
       Inr (Some \<lparr>stack = [], memory = [], call_stack = [], program = [(JMP, Some (- 2))],
             ip = - 2, running = False, stdout = [RuntimeError FetchIndexError]\<rparr>)"
    by code_simp
  show ?thesis
    using 1 2 by (rule conjI)
qed

text \<open>
  Claim C9, amended. The end-of-program test of \<open>execute_instruction\<close> only compares the
  instruction pointer with the program length, so a negative pointer \<open>-k\<close> always passes it.
  When \<open>k\<close> is at most the program length, the fetch reads the \<open>k\<close>-th instruction from the
  end of the program and executes it, with the pointer advanced to \<open>-k + 1\<close>; when \<open>k\<close>
  exceeds the program length, the fetch raises \<open>IndexError\<close> and nothing is executed.
  Every jump (JMP, CALL, RET, JZ, JNZ) assigns a negative target as it is. Compiled and run,
  \<open>PUSH 3; JMP -2; PRINT; HALT\<close> executes the PRINT and then the HALT through the pointers
  -2 and -1, prints 3 and stops with the pointer at 0.
\<close>

theorem negative_ip_wraps_within_length:
  "(\<forall>self. ip self < 0 \<and> - ip self \<le> int (length (program self)) \<longrightarrow>
      execute_instruction self =
        dispatch (self\<lparr>ip := ip self + 1\<rparr>)
          (fst (rev (program self) ! (nat (- ip self) - 1)))
          (snd (rev (program self) ! (nat (- ip self) - 1))))
   \<and> (\<forall>self. ip self < 0 \<and> int (length (program self)) < - ip self \<longrightarrow>
        execute_instruction self = (self, Raised FetchIndexError))
   \<and> (\<forall>self target. fetches self JMP (Some target) \<and> target < 0 \<longrightarrow>
        execute_instruction self = (self\<lparr>ip := target\<rparr>, Returned True))
   \<and> (\<forall>self target. fetches self CALL (Some target) \<and> target < 0 \<longrightarrow>
        execute_instruction self =
          (self\<lparr>ip := target, call_stack := (ip self + 1) # call_stack self\<rparr>, Returned True))
   \<and> (\<forall>self operand ret rest.
        fetches self RET operand \<and> call_stack self = ret # rest \<and> ret < 0 \<longrightarrow>
        execute_instruction self = (self\<lparr>ip := ret, call_stack := rest\<rparr>, Returned True))
   \<and> (\<forall>self target rest.
        fetches self JZ (Some target) \<and> stack self = 0 # rest \<and> target < 0 \<longrightarrow>
        execute_instruction self = (self\<lparr>ip := target, stack := rest\<rparr>, Returned True))
   \<and> (\<forall>self target val rest.
        fetches self JNZ (Some target) \<and> stack self = val # rest \<and> val \<noteq> 0 \<and> target < 0 \<longrightarrow>
        execute_instruction self = (self\<lparr>ip := target, stack := rest\<rparr>, Returned True))
   \<and> compile_and_run (VirtualMachine 0) ''PUSH 3\<newline>JMP -2\<newline>PRINT\<newline>HALT'' =
       Inr (Some \<lparr>stack = [], memory = [], call_stack = [],
             program = [(PUSH, Some 3), (JMP, Some (- 2)), (PRINT, None), (HALT, None)],
             ip = 0, running = False, stdout = [Value 3]\<rparr>)"
  using negative_ip_in_range negative_ip_out_of_range JMP_absolute CALL_absolute RET_pops
    JZ_absolute JNZ_absolute negative_example
  by (intro conjI allI impI) blast+

theorem negative_ip_wraps_within_length_witness:
  "ip ((load_program (VirtualMachine 0) [(PUSH, Some 3), (HALT, None)])\<lparr>ip := - 2\<rparr>) < 0
   \<and> execute_instruction ((load_program (VirtualMachine 0) [(PUSH, Some 3), (HALT, None)])\<lparr>ip := - 2\<rparr>)
     = ((load_program (VirtualMachine 0) [(PUSH, Some 3), (HALT, None)])\<lparr>ip := - 1, stack := [3]\<rparr>,
        Returned True)
   \<and> execute_instruction ((load_program (VirtualMachine 0) [(PUSH, Some 3), (HALT, None)])\<lparr>ip := - 3\<rparr>)
     = ((load_program (VirtualMachine 0) [(PUSH, Some 3), (HALT, None)])\<lparr>ip := - 3\<rparr>,
        Raised FetchIndexError)"
proof -
  let ?a = "(load_program (VirtualMachine 0) [(PUSH, Some 3), (HALT, None)])\<lparr>ip := - 2\<rparr>"
  let ?b = "(load_program (VirtualMachine 0) [(PUSH, Some 3), (HALT, None)])\<lparr>ip := - 3\<rparr>"
  have ha: "ip ?a < 0 \<and> - ip ?a \<le> int (length (program ?a))"
    by (simp add: load_program_def)
  have hb: "ip ?b < 0 \<and> int (length (program ?b)) < - ip ?b"
    by (simp add: load_program_def)
  have 1: "execute_instruction ?a =
        dispatch (?a\<lparr>ip := ip ?a + 1\<rparr>)
          (fst (rev (program ?a) ! (nat (- ip ?a) - 1)))
          (snd (rev (program ?a) ! (nat (- ip ?a) - 1)))"
    using negative_ip_wraps_within_length ha by blast
  have 2: "execute_instruction ?b = (?b, Raised FetchIndexError)"
    using negative_ip_wraps_within_length hb by blast
  have 3: "rev (program ?a) ! (nat (- ip ?a) - 1) = (PUSH, Some 3)"
    by (simp add: load_program_def)
  show ?thesis
    using ha 2 unfolding 1 3 by (simp add: load_program_def)
qed

section \<open>Properties of the assembler\<close>

subsection \<open>Lines and passes\<close>

text \<open>
  No line of \<open>splitlines\<close> holds a line feed, the one character that \<open>.\<close> does not
  match: on these lines the pattern \<open>;.*$\<close> matches from the first semicolon to the end.
\<close>

lemma remove_comment_no_line_feed:
  assumes "CHR 0x0A \<notin> set line"
  shows "remove_comment line = takeWhile (\<lambda>c. c \<noteq> CHR '';'') line"
proof -
  have final: "(line \<noteq> [] \<and> last line = CHR 0x0A) = False"
    using assms last_in_set by metis
  have all: "\<forall>c\<in>set (rev line). c \<noteq> CHR 0x0A"
    using assms by auto
  have t: "takeWhile (\<lambda>c. c \<noteq> CHR 0x0A) (rev line) = rev line"
    using all by (simp add: takeWhile_eq_all_conv)
  have d: "dropWhile (\<lambda>c. c \<noteq> CHR 0x0A) (rev line) = []"
    using all by simp
  show ?thesis
    unfolding remove_comment_def Let_def final by (simp add: t d)
qed

lemma line_feed_is_break: "islinebreak (CHR 0x0A)"
  by (simp add: islinebreak_def code_def)

lemma splitlines_from_no_line_feed:
  "\<forall>c\<in>set l. c \<noteq> CHR 0x0A \<Longrightarrow>
   \<forall>x\<in>set (splitlines_from l s). \<forall>c\<in>set x. c \<noteq> CHR 0x0A"
proof (induction l s rule: splitlines_from.induct)
  case (1 l)
  then show ?case by simp
next
  case (2 l c cs)
  show ?case
  proof (cases "c = CHR 0x0D")
    case cr: True
    show ?thesis
    proof (cases cs)
      case Nil
      with cr "2.prems" show ?thesis by simp
    next
      case (Cons d ds)
      show ?thesis
      proof (cases "d = CHR 0x0A")
        case True
        with "2.IH"(1) [OF cr Cons True] cr Cons "2.prems" show ?thesis by simp
      next
        case False
        with "2.IH"(2) [OF cr Cons False] cr Cons "2.prems" show ?thesis by simp
      qed
    qed
  next
    case nocr: False
    show ?thesis
    proof (cases "islinebreak c")
      case True
      with "2.IH"(3) [OF nocr True] nocr "2.prems" show ?thesis by simp
    next
      case False
      then have "c \<noteq> CHR 0x0A"
        using line_feed_is_break by blast
      with "2.IH"(4) [OF nocr False] nocr False "2.prems" show ?thesis by simp
    qed
  qed
qed

lemma splitlines_no_line_feed:
  "\<forall>line\<in>set (splitlines s). CHR 0x0A \<notin> set line"
  using splitlines_from_no_line_feed [of "[]" s] by (auto simp add: splitlines_def)



lemma split_from_nonempty:
  "w \<noteq> [] \<or> (\<exists>c\<in>set s. \<not> isspace c) \<Longrightarrow> split_from w s \<noteq> []"
  by (induction s arbitrary: w) auto

lemma strip_has_nonspace:
  assumes "strip s \<noteq> []"
  shows "\<exists>c\<in>set (strip s). \<not> isspace c"
proof -
  let ?d = "dropWhile isspace (rev (dropWhile isspace s))"
  from assms have ne: "?d \<noteq> []"
    by (simp add: strip_def)
  then have "\<not> isspace (hd ?d)"
    by (rule hd_dropWhile)
  moreover from ne have "hd ?d \<in> set (strip s)"
    by (simp add: strip_def)
  ultimately show ?thesis by blast
qed

lemma tokens_nonempty: "clean line \<noteq> [] \<Longrightarrow> tokens line \<noteq> []"
  unfolding tokens_def split_def clean_def
  using strip_has_nonspace split_from_nonempty by blast

lemma label_match_nonempty: "label_match l = Some name \<Longrightarrow> l \<noteq> []"
  by (auto simp add: label_match_def)

lemma parse_line_blank:
  "clean line = [] \<Longrightarrow> parse_line self line = Inr (self, None)"
  by (simp add: parse_line_def clean_def)

lemma parse_line_label:
  "declared_label line = Some name \<Longrightarrow>
   parse_line self line =
     Inr (self\<lparr>labels := (labels self)(name \<mapsto> int (length (instructions self)))\<rparr>, None)"
  using label_match_nonempty [of "clean line" name]
  by (simp add: parse_line_def declared_label_def clean_def)

lemma parse_line_error:
  "spec_line_error line = Some e \<Longrightarrow> parse_line self line = Inl e"
  by (auto simp add: spec_line_error_def is_instruction_line_def parse_line_def clean_def
        tokens_def Let_def split: if_splits list.splits option.splits)

lemma parse_line_instruction:
  assumes "is_instruction_line line" and "spec_line_error line = None"
  shows "\<exists>r. parse_line self line = Inr (self, Some r) \<and> sym_of r = referenced_label line"
proof -
  from assms(1) have "tokens line \<noteq> []"
    by (simp add: is_instruction_line_def tokens_nonempty)
  with assms show ?thesis
    by (auto simp add: spec_line_error_def referenced_label_def is_instruction_line_def
          parse_line_def clean_def tokens_def Let_def
          split: if_splits list.splits option.splits)
qed

lemma line_cases:
  obtains (blank) "clean line = []" "declared_label line = None" "\<not> is_instruction_line line"
      "spec_line_error line = None" "referenced_label line = None"
  | (label) name where "declared_label line = Some name" "\<not> is_instruction_line line"
      "spec_line_error line = None" "referenced_label line = None"
  | (instr) "is_instruction_line line" "declared_label line = None"
proof (cases "clean line = []")
  case True
  then show ?thesis
    using blank by (simp add: declared_label_def label_match_def is_instruction_line_def
        spec_line_error_def referenced_label_def)
next
  case False
  then show ?thesis
    using label instr
    by (cases "declared_label line")
       (simp_all add: declared_label_def is_instruction_line_def
        spec_line_error_def referenced_label_def)
qed

lemma first_pass_error_iff:
  "first_pass self ls = Inl e \<longleftrightarrow>
     (case List.find (\<lambda>l. spec_line_error l \<noteq> None) ls of
        Some l \<Rightarrow> spec_line_error l = Some e
      | None \<Rightarrow> False)"
proof (induction ls arbitrary: self)
  case Nil
  then show ?case by simp
next
  case (Cons l ls)
  show ?case
  proof (cases "spec_line_error l")
    case (Some e')
    then show ?thesis
      by (simp add: parse_line_error [OF Some])
  next
    case None
    show ?thesis
    proof (cases l rule: line_cases)
      case blank
      then show ?thesis
        using Cons.IH by (simp add: parse_line_blank)
    next
      case (label name)
      then show ?thesis
        using Cons.IH by (simp add: parse_line_label)
    next
      case instr
      from parse_line_instruction [OF instr(1) None, of self]
      obtain r where "parse_line self l = Inr (self, Some r)" by blast
      then show ?thesis
        using Cons.IH None by simp
    qed
  qed
qed

lemma first_pass_instructions:
  "first_pass self ls = Inr self' \<Longrightarrow>
   \<exists>new. instructions self' = instructions self @ new \<and>
         map sym_of new = map referenced_label (filter is_instruction_line ls)"
proof (induction ls arbitrary: self)
  case Nil
  then show ?case by simp
next
  case (Cons l ls)
  have ok: "spec_line_error l = None"
  proof (rule ccontr)
    assume "spec_line_error l \<noteq> None"
    then obtain e where "spec_line_error l = Some e" by blast
    then show False
      using Cons.prems by (simp add: parse_line_error)
  qed
  show ?case
  proof (cases l rule: line_cases)
    case blank
    then show ?thesis
      using Cons by (simp add: parse_line_blank)
  next
    case (label name)
    then show ?thesis
      using Cons.prems Cons.IH [of "self\<lparr>labels := (labels self)(name \<mapsto> int (length (instructions self)))\<rparr>"]
      by (simp add: parse_line_label)
  next
    case instr
    from parse_line_instruction [OF instr(1) ok, of self]
    obtain r where r: "parse_line self l = Inr (self, Some r)" "sym_of r = referenced_label l"
      by blast
    from Cons.prems r(1)
    have "first_pass (self\<lparr>instructions := instructions self @ [r]\<rparr>) ls = Inr self'"
      by simp
    from Cons.IH [OF this] obtain new where
      "instructions self' = (instructions self @ [r]) @ new"
      "map sym_of new = map referenced_label (filter is_instruction_line ls)"
      by auto
    then show ?thesis
      using instr(1) r(2) by (intro exI [of _ "r # new"]) simp
  qed
qed

lemma first_pass_append:
  "first_pass self (xs @ ys) =
     (case first_pass self xs of Inl e \<Rightarrow> Inl e | Inr self' \<Rightarrow> first_pass self' ys)"
  by (induction xs arbitrary: self) (auto split: sum.splits option.splits prod.splits)

lemma first_pass_labels_kept:
  "first_pass self ls = Inr self' \<Longrightarrow> \<forall>l\<in>set ls. declared_label l \<noteq> Some name \<Longrightarrow>
   labels self' name = labels self name"
proof (induction ls arbitrary: self)
  case Nil
  then show ?case by simp
next
  case (Cons l ls)
  have ok: "spec_line_error l = None"
  proof (rule ccontr)
    assume "spec_line_error l \<noteq> None"
    then obtain e where "spec_line_error l = Some e" by blast
    then show False
      using Cons.prems by (simp add: parse_line_error)
  qed
  show ?case
  proof (cases l rule: line_cases)
    case blank
    then show ?thesis
      using Cons by (simp add: parse_line_blank)
  next
    case (label other)
    with Cons.prems(2) have "other \<noteq> name" by auto
    then show ?thesis
      using label Cons.prems
        Cons.IH [of "self\<lparr>labels := (labels self)(other \<mapsto> int (length (instructions self)))\<rparr>"]
      by (simp add: parse_line_label)
  next
    case instr
    from parse_line_instruction [OF instr(1) ok, of self]
    obtain r where r: "parse_line self l = Inr (self, Some r)"
      by blast
    then show ?thesis
      using Cons.prems Cons.IH [of "self\<lparr>instructions := instructions self @ [r]\<rparr>"]
      by simp
  qed
qed

lemma first_pass_labels_dom:
  "first_pass self ls = Inr self' \<Longrightarrow>
   dom (labels self') = dom (labels self) \<union> set (List.map_filter declared_label ls)"
proof (induction ls arbitrary: self)
  case Nil
  then show ?case by (simp add: List.map_filter_simps)
next
  case (Cons l ls)
  have ok: "spec_line_error l = None"
  proof (rule ccontr)
    assume "spec_line_error l \<noteq> None"
    then obtain e where "spec_line_error l = Some e" by blast
    then show False
      using Cons.prems by (simp add: parse_line_error)
  qed
  show ?case
  proof (cases l rule: line_cases)
    case blank
    then show ?thesis
      using Cons by (simp add: parse_line_blank List.map_filter_simps)
  next
    case (label other)
    then show ?thesis
      using Cons.prems
        Cons.IH [of "self\<lparr>labels := (labels self)(other \<mapsto> int (length (instructions self)))\<rparr>"]
      by (auto simp add: parse_line_label List.map_filter_simps dom_def split: if_splits)
  next
    case instr
    from parse_line_instruction [OF instr(1) ok, of self]
    obtain r where r: "parse_line self l = Inr (self, Some r)"
      by blast
    then show ?thesis
      using instr(2) Cons.prems Cons.IH [of "self\<lparr>instructions := instructions self @ [r]\<rparr>"]
      by (simp add: List.map_filter_simps)
  qed
qed

lemma second_pass_error_iff:
  "second_pass lbls xs = Inl e \<longleftrightarrow>
     map_option UndefinedLabel (List.find (\<lambda>name. lbls name = None) (List.map_filter sym_of xs))
       = Some e"
proof (induction xs)
  case Nil
  then show ?case by (simp add: List.map_filter_simps)
next
  case (Cons x xs)
  then show ?case
    by (cases x rule: sym_of.cases)
       (auto simp add: List.map_filter_simps split: sum.splits option.splits)
qed

lemma second_pass_result:
  "second_pass lbls xs = Inr ys \<Longrightarrow>
   length ys = length xs \<and> (\<forall>i<length xs. resolve lbls (xs ! i) = Inr (ys ! i))"
proof (induction xs arbitrary: ys)
  case Nil
  then show ?case by simp
next
  case (Cons x xs)
  from Cons.prems obtain y ys' where
    y: "resolve lbls x = Inr y" and ys': "second_pass lbls xs = Inr ys'" and eq: "ys = y # ys'"
    by (auto split: sum.splits)
  show ?case
    using Cons.IH [OF ys'] y eq
    by (simp add: nth_Cons split: nat.splits)
qed

lemma resolve_sym:
  "resolve lbls x = Inr y \<Longrightarrow> sym_of x = Some name \<Longrightarrow> snd y = lbls name \<and> lbls name \<noteq> None"
  by (cases x rule: sym_of.cases) (auto split: option.splits)

lemma map_filter_via_map:
  "List.map_filter f xs = map the (filter (\<lambda>y. y \<noteq> None) (map f xs))"
  by (induction xs) (auto simp add: List.map_filter_simps)

lemma map_filter_filter_None:
  "(\<And>x. \<not> P x \<Longrightarrow> f x = None) \<Longrightarrow> List.map_filter f (filter P xs) = List.map_filter f xs"
  by (induction xs) (auto simp add: List.map_filter_simps split: option.splits)

lemma map_filter_referenced:
  "List.map_filter referenced_label (filter is_instruction_line ls) =
   List.map_filter referenced_label ls"
  by (rule map_filter_filter_None) (simp add: referenced_label_def)

lemma compile_error_iff:
  "compile src = Inl e \<longleftrightarrow> spec_compile_error (splitlines src) = Some e"
proof (cases "first_pass \<lparr>labels = Map.empty, instructions = []\<rparr> (splitlines src)")
  case (Inl e')
  then show ?thesis
    using first_pass_error_iff [of "\<lparr>labels = Map.empty, instructions = []\<rparr>" "splitlines src" e']
      first_pass_error_iff [of "\<lparr>labels = Map.empty, instructions = []\<rparr>" "splitlines src" e]
    by (auto simp add: compile_def spec_compile_error_def split: option.splits)
next
  case (Inr self')
  have none: "List.find (\<lambda>l. spec_line_error l \<noteq> None) (splitlines src) = None"
  proof (cases "List.find (\<lambda>l. spec_line_error l \<noteq> None) (splitlines src)")
    case (Some l)
    then obtain e' where "spec_line_error l = Some e'"
      by (auto simp add: find_Some_iff)
    then have "first_pass \<lparr>labels = Map.empty, instructions = []\<rparr> (splitlines src) = Inl e'"
      using Some by (simp add: first_pass_error_iff)
    with Inr show ?thesis by simp
  qed simp
  from first_pass_instructions [OF Inr]
  have syms: "map sym_of (instructions self') =
                map referenced_label (filter is_instruction_line (splitlines src))"
    by auto
  have "List.map_filter sym_of (instructions self') =
          List.map_filter referenced_label (filter is_instruction_line (splitlines src))"
    using syms by (simp only: map_filter_via_map)
  then have refs: "List.map_filter sym_of (instructions self') =
                List.map_filter referenced_label (splitlines src)"
    by (simp only: map_filter_referenced)
  have dom: "\<And>name. labels self' name = None \<longleftrightarrow>
                name \<notin> set (List.map_filter declared_label (splitlines src))"
    using first_pass_labels_dom [OF Inr] domIff [of _ "labels self'"] by simp
  show ?thesis
    using Inr none refs dom
    by (simp add: compile_def spec_compile_error_def second_pass_error_iff)
qed

subsection \<open>Errors of compile\<close>

lemma spec_line_error_kind:
  "spec_line_error line = Some e \<Longrightarrow> (\<exists>t. e = UnknownInstruction t \<or> e = InvalidOperand t)"
  by (auto simp add: spec_line_error_def split: if_splits list.splits)

lemma spec_compile_error_clean:
  "List.find (\<lambda>l. spec_line_error l \<noteq> None) ls = None \<Longrightarrow>
   spec_compile_error ls =
     map_option UndefinedLabel
       (List.find (\<lambda>name. name \<notin> set (List.map_filter declared_label ls))
          (List.map_filter referenced_label ls))"
  unfolding spec_compile_error_def by (simp only: option.simps)

lemma spec_compile_error_line:
  "List.find (\<lambda>l. spec_line_error l \<noteq> None) ls = Some l \<Longrightarrow>
   spec_compile_error ls = spec_line_error l"
  unfolding spec_compile_error_def by (simp only: option.simps)

lemma spec_compile_error_kind:
  assumes "spec_compile_error ls = Some e"
  shows "\<exists>t. e = UnknownInstruction t \<or> e = InvalidOperand t \<or> e = UndefinedLabel t"
proof (cases "List.find (\<lambda>l. spec_line_error l \<noteq> None) ls")
  case None
  from assms show ?thesis
    unfolding spec_compile_error_clean [OF None] by auto
next
  case (Some l)
  from assms have "spec_line_error l = Some e"
    unfolding spec_compile_error_line [OF Some] .
  then show ?thesis
    using spec_line_error_kind by blast
qed

lemma spec_compile_error_None_iff:
  "spec_compile_error ls = None \<longleftrightarrow>
     (\<forall>l\<in>set ls. spec_line_error l = None) \<and>
     set (List.map_filter referenced_label ls) \<subseteq> set (List.map_filter declared_label ls)"
proof (cases "List.find (\<lambda>l. spec_line_error l \<noteq> None) ls")
  case None
  then have "\<forall>l\<in>set ls. spec_line_error l = None"
    by (auto simp add: find_None_iff)
  then show ?thesis
    unfolding spec_compile_error_clean [OF None] by (auto simp add: find_None_iff)
next
  case (Some l)
  then have "l \<in> set ls \<and> spec_line_error l \<noteq> None"
    by (auto simp add: find_Some_iff)
  then show ?thesis
    unfolding spec_compile_error_line [OF Some] by auto
qed

lemma compile_success_iff:
  "(\<exists>prog. compile src = Inr prog) \<longleftrightarrow> spec_compile_error (splitlines src) = None"
proof (cases "compile src")
  case (Inl e)
  then show ?thesis
    using compile_error_iff [of src e] by simp
next
  case (Inr prog)
  have "spec_compile_error (splitlines src) \<noteq> Some e" for e
    using compile_error_iff [of src e] Inr by simp
  with Inr show ?thesis by auto
qed

lemma compile_length:
  assumes "compile src = Inr prog"
  shows "length prog = length (filter is_instruction_line (splitlines src))"
proof -
  from assms obtain self' where
    fp: "first_pass \<lparr>labels = Map.empty, instructions = []\<rparr> (splitlines src) = Inr self'"
    and sp: "second_pass (labels self') (instructions self') = Inr prog"
    by (auto simp add: compile_def split: sum.splits)
  from first_pass_instructions [OF fp]
  have "map sym_of (instructions self') =
          map referenced_label (filter is_instruction_line (splitlines src))"
    by auto
  then have "length (instructions self') = length (filter is_instruction_line (splitlines src))"
    using map_eq_imp_length_eq by blast
  with second_pass_result [OF sp] show ?thesis by simp
qed

lemma compile_examples:
  "compile ''FOO 1'' = Inl (UnknownInstruction ''FOO'')"
  "compile ''foo 1'' = Inl (UnknownInstruction ''FOO'')"
  "compile ''PUSH 1x'' = Inl (InvalidOperand ''1x'')"
  "compile ''JMP nowhere\<newline>HALT'' = Inl (UndefinedLabel ''nowhere'')"
  "compile ''PUSH 1\<newline>FOO\<newline>PUSH 2'' = Inl (UnknownInstruction ''FOO'')"
  "compile ''push 2\<newline>Push +3 ; two operands\<newline>add\<newline>print\<newline>halt'' =
     Inr [(PUSH, Some 2), (PUSH, Some 3), (ADD, None), (PRINT, None), (HALT, None)]"
  by code_simp+

text \<open>
  Claim C4. On every ASCII source text, \<open>compile\<close> fails with an error exactly when the
  specification assigns the source that error, and returns a program exactly when it
  assigns none: when no
  instruction line has a first token outside the fifteen mnemonics (compared in upper
  case) or a second token that is neither purely alphabetic nor an integer literal, and
  every label referred to is declared by some line. The error is that of the first line in
  error, naming its token (an unknown mnemonic in the upper-case form in which it was
  compared), or else UndefinedLabel naming the first undeclared label referred to. No other
  exception leaves \<open>compile\<close>; in particular \<open>parts[0]\<close> never fails. A result is either an
  error or a program, never both, and a returned program has one instruction, with an
  integer or no operand, for each instruction line of the source.
\<close>

theorem compile_atomic_errors:
  "(ascii src \<longrightarrow>
      (\<forall>e. compile src = Inl e \<longleftrightarrow> spec_compile_error (splitlines src) = Some e)
    \<and> ((\<exists>prog. compile src = Inr prog) \<longleftrightarrow>
         (\<forall>l\<in>set (splitlines src). spec_line_error l = None) \<and>
         set (List.map_filter referenced_label (splitlines src))
           \<subseteq> set (List.map_filter declared_label (splitlines src)))
    \<and> (\<forall>e. compile src = Inl e \<longrightarrow>
         (\<exists>t. e = UnknownInstruction t \<or> e = InvalidOperand t \<or> e = UndefinedLabel t))
    \<and> (\<forall>prog. compile src = Inr prog \<longrightarrow>
         length prog = length (filter is_instruction_line (splitlines src))))
   \<and> compile ''FOO 1'' = Inl (UnknownInstruction ''FOO'')
   \<and> compile ''foo 1'' = Inl (UnknownInstruction ''FOO'')
   \<and> compile ''PUSH 1x'' = Inl (InvalidOperand ''1x'')
   \<and> compile ''JMP nowhere\<newline>HALT'' = Inl (UndefinedLabel ''nowhere'')
   \<and> compile ''PUSH 1\<newline>FOO\<newline>PUSH 2'' = Inl (UnknownInstruction ''FOO'')
   \<and> compile ''push 2\<newline>Push +3 ; two operands\<newline>add\<newline>print\<newline>halt'' =
       Inr [(PUSH, Some 2), (PUSH, Some 3), (ADD, None), (PRINT, None), (HALT, None)]"
proof (intro conjI allI impI)
  fix e show "compile src = Inl e \<longleftrightarrow> spec_compile_error (splitlines src) = Some e"
    by (rule compile_error_iff)
next
  show "(\<exists>prog. compile src = Inr prog) \<longleftrightarrow>
        (\<forall>l\<in>set (splitlines src). spec_line_error l = None) \<and>
        set (List.map_filter referenced_label (splitlines src))
          \<subseteq> set (List.map_filter declared_label (splitlines src))"
    by (simp only: compile_success_iff spec_compile_error_None_iff)
next
  fix e assume "compile src = Inl e"
  then show "\<exists>t. e = UnknownInstruction t \<or> e = InvalidOperand t \<or> e = UndefinedLabel t"
    using compile_error_iff spec_compile_error_kind by blast
next
  fix prog assume "compile src = Inr prog"
  then show "length prog = length (filter is_instruction_line (splitlines src))"
    by (rule compile_length)
qed (rule compile_examples)+

lemma compile_witness_eval:
  "spec_compile_error (splitlines ''PUSH 1\<newline>JMP nowhere\<newline>bar 2'') =
     Some (UnknownInstruction ''BAR'')"
  "ascii ''PUSH 1\<newline>JMP nowhere\<newline>bar 2''"
  by code_simp+

theorem compile_atomic_errors_witness:
  "ascii ''PUSH 1\<newline>JMP nowhere\<newline>bar 2''
   \<and> spec_compile_error (splitlines ''PUSH 1\<newline>JMP nowhere\<newline>bar 2'') =
     Some (UnknownInstruction ''BAR'')
   \<and> compile ''PUSH 1\<newline>JMP nowhere\<newline>bar 2'' = Inl (UnknownInstruction ''BAR'')
   \<and> \<not> (\<exists>prog. compile ''PUSH 1\<newline>JMP nowhere\<newline>bar 2'' = Inr prog)"
proof -
  have "compile ''PUSH 1\<newline>JMP nowhere\<newline>bar 2'' = Inl (UnknownInstruction ''BAR'')"
    using compile_atomic_errors [of "''PUSH 1\<newline>JMP nowhere\<newline>bar 2''"] compile_witness_eval
    by blast
  then show ?thesis
    using compile_witness_eval by simp
qed


subsection \<open>Label binding and resolution\<close>

lemma first_pass_count:
  assumes "first_pass self ls = Inr self'"
  shows "length (instructions self') =
           length (instructions self) + length (filter is_instruction_line ls)"
proof -
  from first_pass_instructions [OF assms] obtain new where
    new: "instructions self' = instructions self @ new"
      "map sym_of new = map referenced_label (filter is_instruction_line ls)"
    by blast
  from new(2) have "length new = length (filter is_instruction_line ls)"
    by (rule map_eq_imp_length_eq)
  with new(1) show ?thesis by simp
qed

lemma last_declaration_binds:
  assumes fp: "first_pass self (pre @ decl # post) = Inr self'"
    and decl: "declared_label decl = Some name"
    and post: "\<forall>l\<in>set post. declared_label l \<noteq> Some name"
  shows "labels self' name =
           Some (int (length (instructions self) + length (filter is_instruction_line pre)))"
proof -
  from fp obtain s1 where
    s1: "first_pass self pre = Inr s1" and rest: "first_pass s1 (decl # post) = Inr self'"
    by (auto simp add: first_pass_append split: sum.splits)
  let ?s2 = "s1\<lparr>labels := (labels s1)(name \<mapsto> int (length (instructions s1)))\<rparr>"
  from rest have "first_pass ?s2 post = Inr self'"
    by (simp add: parse_line_label [OF decl])
  from first_pass_labels_kept [OF this post]
  have "labels self' name = Some (int (length (instructions s1)))"
    by simp
  then show ?thesis
    using first_pass_count [OF s1] by simp
qed

lemma reference_resolved:
  assumes c: "compile src = Inr prog"
    and split: "splitlines src = pre @ decl # post"
    and decl: "declared_label decl = Some name"
    and post: "\<forall>l\<in>set post. declared_label l \<noteq> Some name"
    and i: "i < length (filter is_instruction_line (splitlines src))"
    and ref: "referenced_label (filter is_instruction_line (splitlines src) ! i) = Some name"
  shows "i < length prog \<and> snd (prog ! i) = Some (int (length (filter is_instruction_line pre)))"
proof -
  let ?ils = "filter is_instruction_line (splitlines src)"
  from c obtain self' where
    fp: "first_pass \<lparr>labels = Map.empty, instructions = []\<rparr> (splitlines src) = Inr self'"
    and sp: "second_pass (labels self') (instructions self') = Inr prog"
    by (auto simp add: compile_def split: sum.splits)
  from first_pass_instructions [OF fp]
  have syms: "map sym_of (instructions self') = map referenced_label ?ils"
    by auto
  then have len: "length (instructions self') = length ?ils"
    by (rule map_eq_imp_length_eq)
  from syms i len have "sym_of (instructions self' ! i) = referenced_label (?ils ! i)"
    by (metis nth_map)
  with ref have sym: "sym_of (instructions self' ! i) = Some name"
    by simp
  from second_pass_result [OF sp] i len
  have plen: "length prog = length (instructions self')"
    and res: "resolve (labels self') (instructions self' ! i) = Inr (prog ! i)"
    by simp_all
  from resolve_sym [OF res sym] have "snd (prog ! i) = labels self' name"
    by simp
  moreover from last_declaration_binds [OF fp [unfolded split] decl post]
  have "labels self' name = Some (int (length (filter is_instruction_line pre)))"
    by simp
  ultimately show ?thesis
    using plen len i by simp
qed

lemma label_examples:
  "compile ''JMP mid\<newline>PUSH 1\<newline>mid:\<newline>HALT\<newline>JMP mid'' =
     Inr [(JMP, Some 2), (PUSH, Some 1), (HALT, None), (JMP, Some 2)]"
  "compile ''JMP skip\<newline>PUSH 1\<newline>skip:\<newline>PUSH 2\<newline>PRINT\<newline>HALT'' =
     Inr [(JMP, Some 2), (PUSH, Some 1), (PUSH, Some 2), (PRINT, None), (HALT, None)]"
  by code_simp+

text \<open>
  Claim C1. On ASCII source text: a line that declares a label makes \<open>parse_line\<close> bind
  the name to the number of instructions collected so far and emit nothing. After a successful \<open>compile\<close>, every
  instruction whose operand is the name of a label carries, as its operand, the number of
  instruction lines that precede the (last) declaration of that label, which is the index
  of the next instruction emitted after the declaration; this holds wherever the referring
  instruction stands, before or after the declaration. In \<open>JMP mid; PUSH 1; mid:; HALT;
  JMP mid\<close> both jumps, one before and one after the declaration, get the operand 2.
\<close>

theorem label_binding_and_resolution:
  "(\<forall>self line name. ascii line \<and> declared_label line = Some name \<longrightarrow>
      parse_line self line =
        Inr (self\<lparr>labels := (labels self)(name \<mapsto> int (length (instructions self)))\<rparr>, None))
   \<and> (\<forall>src prog pre decl post name i.
        ascii src \<and> compile src = Inr prog \<and> splitlines src = pre @ decl # post \<and>
        declared_label decl = Some name \<and> (\<forall>l\<in>set post. declared_label l \<noteq> Some name) \<and>
        i < length (filter is_instruction_line (splitlines src)) \<and>
        referenced_label (filter is_instruction_line (splitlines src) ! i) = Some name \<longrightarrow>
        i < length prog \<and>
        snd (prog ! i) = Some (int (length (filter is_instruction_line pre))))
   \<and> compile ''JMP mid\<newline>PUSH 1\<newline>mid:\<newline>HALT\<newline>JMP mid'' =
       Inr [(JMP, Some 2), (PUSH, Some 1), (HALT, None), (JMP, Some 2)]
   \<and> compile ''JMP skip\<newline>PUSH 1\<newline>skip:\<newline>PUSH 2\<newline>PRINT\<newline>HALT'' =
       Inr [(JMP, Some 2), (PUSH, Some 1), (PUSH, Some 2), (PRINT, None), (HALT, None)]"
proof (intro conjI allI impI)
  fix self line name assume "ascii line \<and> declared_label line = Some name"
  then show "parse_line self line =
        Inr (self\<lparr>labels := (labels self)(name \<mapsto> int (length (instructions self)))\<rparr>, None)"
    using parse_line_label by blast
next
  fix src prog pre decl post name i
  assume a: "ascii src \<and> compile src = Inr prog \<and> splitlines src = pre @ decl # post \<and>
        declared_label decl = Some name \<and> (\<forall>l\<in>set post. declared_label l \<noteq> Some name) \<and>
        i < length (filter is_instruction_line (splitlines src)) \<and>
        referenced_label (filter is_instruction_line (splitlines src) ! i) = Some name"
  then have r: "i < length prog \<and>
        snd (prog ! i) = Some (int (length (filter is_instruction_line pre)))"
    using reference_resolved by blast
  from r show "i < length prog" ..
  from r show "snd (prog ! i) = Some (int (length (filter is_instruction_line pre)))" ..
qed (rule label_examples)+

lemma label_witness_eval:
  "splitlines ''JMP mid\<newline>PUSH 1\<newline>mid:\<newline>HALT\<newline>JMP mid'' =
     [''JMP mid'', ''PUSH 1''] @ ''mid:'' # [''HALT'', ''JMP mid'']"
  "declared_label ''mid:'' = Some ''mid''"
  "\<forall>l\<in>set [''HALT'', ''JMP mid'']. declared_label l \<noteq> Some ''mid''"
  "filter is_instruction_line [''JMP mid'', ''PUSH 1'', ''mid:'', ''HALT'', ''JMP mid''] =
     [''JMP mid'', ''PUSH 1'', ''HALT'', ''JMP mid'']"
  "filter is_instruction_line [''JMP mid'', ''PUSH 1''] = [''JMP mid'', ''PUSH 1'']"
  "referenced_label ''JMP mid'' = Some ''mid''"
  "ascii ''JMP mid\<newline>PUSH 1\<newline>mid:\<newline>HALT\<newline>JMP mid''"
  "ascii ''mid:''"
  by code_simp+

theorem label_binding_and_resolution_witness:
  "ascii ''JMP mid\<newline>PUSH 1\<newline>mid:\<newline>HALT\<newline>JMP mid''
   \<and> ascii ''mid:''
   \<and> parse_line \<lparr>labels = Map.empty, instructions = [(PUSH, Some (Num 1))]\<rparr> ''mid:'' =
       Inr (\<lparr>labels = [''mid'' \<mapsto> 1], instructions = [(PUSH, Some (Num 1))]\<rparr>, None)
   \<and> compile ''JMP mid\<newline>PUSH 1\<newline>mid:\<newline>HALT\<newline>JMP mid'' =
     Inr [(JMP, Some 2), (PUSH, Some 1), (HALT, None), (JMP, Some 2)]
   \<and> splitlines ''JMP mid\<newline>PUSH 1\<newline>mid:\<newline>HALT\<newline>JMP mid'' =
       [''JMP mid'', ''PUSH 1''] @ ''mid:'' # [''HALT'', ''JMP mid'']
   \<and> declared_label ''mid:'' = Some ''mid''
   \<and> referenced_label ''JMP mid'' = Some ''mid''
   \<and> snd ([(JMP, Some 2), (PUSH, Some 1), (HALT, None), (JMP, Some 2)] ! 0) = Some (2::int)
   \<and> snd ([(JMP, Some 2), (PUSH, Some 1), (HALT, None), (JMP, Some 2)] ! 3) = Some (2::int)"
proof -
  let ?src = "''JMP mid\<newline>PUSH 1\<newline>mid:\<newline>HALT\<newline>JMP mid''"
  let ?prog = "[(JMP, Some 2), (PUSH, Some 1), (HALT, None), (JMP, Some (2::int))]"
  note e = label_witness_eval
  have c: "compile ?src = Inr ?prog"
    by (rule label_examples)
  have i0: "(0::nat) < length (filter is_instruction_line (splitlines ?src)) \<and>
      referenced_label (filter is_instruction_line (splitlines ?src) ! 0) = Some ''mid''"
    unfolding e(1) using e(4,6) by simp
  have i3: "(3::nat) < length (filter is_instruction_line (splitlines ?src)) \<and>
      referenced_label (filter is_instruction_line (splitlines ?src) ! 3) = Some ''mid''"
    unfolding e(1) using e(4,6) by simp
  have "snd (?prog ! 0) =
          Some (int (length (filter is_instruction_line [''JMP mid'', ''PUSH 1''])))"
    using label_binding_and_resolution [THEN conjunct2, THEN conjunct1, rule_format,
        of ?src ?prog "[''JMP mid'', ''PUSH 1'']" "''mid:''" "[''HALT'', ''JMP mid'']" "''mid''" 0]
      c e(1,2,3,7) i0 by blast
  moreover have "snd (?prog ! 3) =
          Some (int (length (filter is_instruction_line [''JMP mid'', ''PUSH 1''])))"
    using label_binding_and_resolution [THEN conjunct2, THEN conjunct1, rule_format,
        of ?src ?prog "[''JMP mid'', ''PUSH 1'']" "''mid:''" "[''HALT'', ''JMP mid'']" "''mid''" 3]
      c e(1,2,3,7) i3 by blast
  moreover have "parse_line \<lparr>labels = Map.empty, instructions = [(PUSH, Some (Num 1))]\<rparr> ''mid:'' =
       Inr (\<lparr>labels = [''mid'' \<mapsto> 1], instructions = [(PUSH, Some (Num 1))]\<rparr>, None)"
    using label_binding_and_resolution [THEN conjunct1, rule_format,
        of "''mid:''" "''mid''" "\<lparr>labels = Map.empty, instructions = [(PUSH, Some (Num 1))]\<rparr>"]
      e(2,8) by simp
  ultimately show ?thesis
    using c e(1,2,5,6,7,8) by simp
qed


subsection \<open>Label names with digits or underscores\<close>

lemma code_simps:
  "code CHR ''_'' = 95" "code CHR '':'' = 58" "code CHR '';'' = 59"
  by (simp_all add: code_def)

lemma line_feed_is_space: "isspace (CHR 0x0A)"
  by (simp add: isspace_def code_def)

lemma isword_c_plain:
  "isword_c c \<Longrightarrow> \<not> isspace c \<and> c \<noteq> CHR '';'' \<and> c \<noteq> CHR '':''"
  by (auto simp add: isword_c_def isalpha_c_def isupper_c_def islower_c_def isdigit_c_def
        isspace_def Let_def code_simps)

lemma not_alpha_c:
  "isdigit_c c \<or> c = CHR ''_'' \<Longrightarrow> \<not> isalpha_c c"
  by (auto simp add: isalpha_c_def isupper_c_def islower_c_def isdigit_c_def Let_def code_simps)

lemma not_isalpha:
  "\<exists>c\<in>set name. isdigit_c c \<or> c = CHR ''_'' \<Longrightarrow> \<not> isalpha name"
  using not_alpha_c by (auto simp add: isalpha_def list_all_iff)

lemma word_not_alpha:
  "name \<noteq> [] \<Longrightarrow> list_all isword_c name \<Longrightarrow> \<not> isalpha name \<Longrightarrow>
   \<exists>c\<in>set name. isdigit_c c \<or> c = CHR ''_''"
  by (auto simp add: isalpha_def list_all_iff isword_c_def)

lemma clean_declaration:
  assumes "list_all isword_c name"
  shows "clean (name @ '':'') = name @ '':''"
proof -
  have nosemi: "\<forall>c\<in>set (name @ '':''). c \<noteq> CHR '';''"
    using assms isword_c_plain by (auto simp add: list_all_iff)
  have nolf: "CHR 0x0A \<notin> set (name @ '':'')"
    using assms isword_c_plain line_feed_is_space by (auto simp add: list_all_iff)
  have rc: "remove_comment (name @ '':'') = name @ '':''"
    unfolding remove_comment_no_line_feed [OF nolf] using nosemi
    by (simp add: takeWhile_eq_all_conv)
  have colon: "\<not> isspace CHR '':''"
    by (simp add: isspace_def Let_def code_simps)
  have front: "dropWhile isspace (name @ '':'') = name @ '':''"
    using assms isword_c_plain colon by (cases name) (auto simp add: list_all_iff)
  have rear: "dropWhile isspace (rev (name @ '':'')) = rev (name @ '':'')"
    using colon by simp
  show ?thesis
    unfolding clean_def rc strip_def front rear by simp
qed

lemma declaration_accepted:
  assumes "name \<noteq> []" and "list_all isword_c name"
  shows "declared_label (name @ '':'') = Some name"
proof -
  have colon: "\<not> isword_c CHR '':''"
    using isword_c_plain by blast
  have t: "takeWhile isword_c (name @ '':'') = name"
    using assms(2) colon by (simp add: list_all_iff takeWhile_append2)
  have d: "dropWhile isword_c (name @ '':'') = '':''"
    using assms(2) colon by (simp add: list_all_iff dropWhile_append2)
  show ?thesis
    unfolding declared_label_def clean_declaration [OF assms(2)] label_match_def t d
    using assms(1) by simp
qed

lemma parse_line_non_alpha_operand:
  assumes "is_instruction_line line" and "tokens line = mnemonic # name # rest"
    and "instruction_map (upper mnemonic) = Some instr" and "\<not> isalpha name"
  shows "parse_line self line =
           (case int_of_str name of
              None \<Rightarrow> Inl (InvalidOperand name)
            | Some n \<Rightarrow> Inr (self, Some (instr, Some (Num n))))"
  using assms
  by (simp add: parse_line_def is_instruction_line_def tokens_def clean_def Let_def)

lemma spec_line_error_non_alpha_operand:
  assumes "is_instruction_line line" and "tokens line = mnemonic # name # rest"
    and "instruction_map (upper mnemonic) = Some instr" and "\<not> isalpha name"
    and "int_of_str name = None"
  shows "spec_line_error line = Some (InvalidOperand name)"
  using assms by (simp add: spec_line_error_def)

lemma find_first:
  "\<forall>x\<in>set pre. \<not> P x \<Longrightarrow> P y \<Longrightarrow> List.find P (pre @ y # post) = Some y"
  by (induction pre) simp_all

lemma compile_first_error:
  assumes "splitlines src = pre @ line # post"
    and "\<forall>l\<in>set pre. spec_line_error l = None" and "spec_line_error line = Some e"
  shows "compile src = Inl e"
proof -
  have "List.find (\<lambda>l. spec_line_error l \<noteq> None) (pre @ line # post) = Some line"
    using assms(2,3) by (intro find_first) simp_all
  then have "spec_compile_error (splitlines src) = Some e"
    using assms(1,3) by (simp add: spec_compile_error_line)
  then show ?thesis
    by (simp add: compile_error_iff)
qed

lemma referenced_label_isalpha:
  "referenced_label line = Some name \<Longrightarrow> isalpha name"
  by (auto simp add: referenced_label_def split: if_splits list.splits)

lemma first_pass_parsed:
  "first_pass self ls = Inr self' \<Longrightarrow>
   \<exists>new. instructions self' = instructions self @ new \<and>
         list_all2 (\<lambda>line r. parse_line s0 line = Inr (s0, Some r))
           (filter is_instruction_line ls) new"
proof (induction ls arbitrary: self)
  case Nil
  then show ?case by simp
next
  case (Cons l ls)
  have ok: "spec_line_error l = None"
  proof (rule ccontr)
    assume "spec_line_error l \<noteq> None"
    then obtain e where "spec_line_error l = Some e" by blast
    then show False
      using Cons.prems by (simp add: parse_line_error)
  qed
  show ?case
  proof (cases l rule: line_cases)
    case blank
    then show ?thesis
      using Cons by (simp add: parse_line_blank)
  next
    case (label name)
    then show ?thesis
      using Cons.prems Cons.IH [of "self\<lparr>labels := (labels self)(name \<mapsto> int (length (instructions self)))\<rparr>"]
      by (simp add: parse_line_label)
  next
    case instr
    from parse_line_instruction [OF instr(1) ok, of self]
    obtain r where r: "parse_line self l = Inr (self, Some r)"
      by blast
    have r0: "parse_line s0 l = Inr (s0, Some r)"
      using parse_line_instruction [OF instr(1) ok, of s0] r instr(1) ok
      by (auto simp add: parse_line_def Let_def clean_def is_instruction_line_def
            split: if_splits option.splits list.splits)
    from Cons.prems r
    have "first_pass (self\<lparr>instructions := instructions self @ [r]\<rparr>) ls = Inr self'"
      by simp
    from Cons.IH [OF this] obtain new where
      "instructions self' = (instructions self @ [r]) @ new"
      "list_all2 (\<lambda>line r. parse_line s0 line = Inr (s0, Some r)) (filter is_instruction_line ls) new"
      by auto
    then show ?thesis
      using instr(1) r0 by (intro exI [of _ "r # new"]) simp
  qed
qed

lemma literal_operand_compiled:
  assumes c: "compile src = Inr prog"
    and i: "i < length (filter is_instruction_line (splitlines src))"
    and toks: "tokens (filter is_instruction_line (splitlines src) ! i) = mnemonic # name # rest"
    and na: "\<not> isalpha name"
  shows "i < length prog \<and> int_of_str name \<noteq> None \<and> snd (prog ! i) = int_of_str name"
proof -
  let ?ils = "filter is_instruction_line (splitlines src)"
  let ?s0 = "\<lparr>labels = Map.empty, instructions = []\<rparr>"
  from c obtain self' where
    fp: "first_pass ?s0 (splitlines src) = Inr self'"
    and sp: "second_pass (labels self') (instructions self') = Inr prog"
    by (auto simp add: compile_def split: sum.splits)
  from first_pass_parsed [OF fp, of ?s0]
  have all2: "list_all2 (\<lambda>line r. parse_line ?s0 line = Inr (?s0, Some r)) ?ils (instructions self')"
    by auto
  then have len: "length (instructions self') = length ?ils"
    by (simp add: list_all2_lengthD)
  have p: "parse_line ?s0 (?ils ! i) = Inr (?s0, Some (instructions self' ! i))"
    using list_all2_nthD [OF all2 i] by simp
  have il: "is_instruction_line (?ils ! i)"
    using i nth_mem [OF i] by simp
  from p have known: "instruction_map (upper mnemonic) \<noteq> None"
    using il toks
    by (auto simp add: parse_line_def is_instruction_line_def tokens_def clean_def Let_def
          split: option.splits)
  then obtain instr where instr: "instruction_map (upper mnemonic) = Some instr"
    by blast
  from p parse_line_non_alpha_operand [OF il toks instr na, of ?s0]
  obtain n where n: "int_of_str name = Some n" "instructions self' ! i = (instr, Some (Num n))"
    by (auto split: option.splits)
  from second_pass_result [OF sp] i len
  have plen: "length prog = length (instructions self')"
    and res: "resolve (labels self') (instructions self' ! i) = Inr (prog ! i)"
    by simp_all
  from res n(2) have "prog ! i = (instr, Some n)"
    by simp
  then show ?thesis
    using n(1) plen len i by simp
qed

lemma digit_label_examples:
  "compile ''loop1:\<newline>PUSH 1\<newline>JNZ loop1'' = Inl (InvalidOperand ''loop1'')"
  "compile ''my_label:\<newline>JMP my_label'' = Inl (InvalidOperand ''my_label'')"
  "compile ''PUSH 5\<newline>1_0:\<newline>HALT\<newline>JMP 1_0'' =
     Inr [(PUSH, Some 5), (HALT, None), (JMP, Some 10)]"
  by code_simp+

text \<open>
  Claim C10, as stated, at the label name \<open>7\<close>: the line \<open>7:\<close> is accepted as a
  declaration, and \<open>JMP 7\<close> compiles without any error, with the integer 7 as its operand
  (the label is bound to index 0).
\<close>

theorem digit_label_counterexample:
  "declared_label ''7:'' = Some ''7''
   \<and> compile ''7:\<newline>JMP 7'' = Inr [(JMP, Some 7)]
   \<and> compile ''7:\<newline>JMP 7'' \<noteq> Inl (InvalidOperand ''7'')"
proof -
  have 1: "declared_label ''7:'' = Some ''7''"
    by code_simp
  have 2: "compile ''7:\<newline>JMP 7'' = Inr [(JMP, Some 7)]"
    by code_simp
  show ?thesis
    unfolding 2 using 1 by simp
qed

text \<open>
  Claim C10, amended. On ASCII source text: every non-empty name of letters, digits and
  underscores followed by a colon is accepted as a label declaration, but a second token is taken as a reference to
  a label only when it is purely alphabetic. So a name that contains a digit or an
  underscore is never a label reference: an instruction line with a known mnemonic and such
  a name as its second token is rejected with InvalidOperand naming it when the name is
  not an integer literal (as \<open>loop1\<close>), and \<open>compile\<close> fails with that error when no earlier
  line is in error; when the name is an integer literal (as \<open>7\<close> or \<open>1_0\<close>), the
  instruction is compiled with the value of the literal as its operand, whatever index the
  label is bound to.
\<close>

theorem label_with_digit_or_underscore:
  "(\<forall>name. ascii name \<and> name \<noteq> [] \<and> list_all isword_c name \<longrightarrow>
      declared_label (name @ '':'') = Some name)
   \<and> (\<forall>name. ascii name \<and> (\<exists>c\<in>set name. isdigit_c c \<or> c = CHR ''_'') \<longrightarrow>
        \<not> isalpha name \<and> (\<forall>line. ascii line \<longrightarrow> referenced_label line \<noteq> Some name))
   \<and> (\<forall>self line mnemonic name rest instr.
        ascii line \<and> is_instruction_line line \<and> tokens line = mnemonic # name # rest \<and>
        instruction_map (upper mnemonic) = Some instr \<and>
        (\<exists>c\<in>set name. isdigit_c c \<or> c = CHR ''_'') \<longrightarrow>
        parse_line self line =
          (case int_of_str name of
             None \<Rightarrow> Inl (InvalidOperand name)
           | Some n \<Rightarrow> Inr (self, Some (instr, Some (Num n)))))
   \<and> (\<forall>src pre line post mnemonic name rest instr.
        ascii src \<and>
        splitlines src = pre @ line # post \<and> (\<forall>l\<in>set pre. spec_line_error l = None) \<and>
        is_instruction_line line \<and> tokens line = mnemonic # name # rest \<and>
        instruction_map (upper mnemonic) = Some instr \<and>
        (\<exists>c\<in>set name. isdigit_c c \<or> c = CHR ''_'') \<and> int_of_str name = None \<longrightarrow>
        compile src = Inl (InvalidOperand name))
   \<and> (\<forall>src prog i mnemonic name rest.
        ascii src \<and>
        compile src = Inr prog \<and> i < length (filter is_instruction_line (splitlines src)) \<and>
        tokens (filter is_instruction_line (splitlines src) ! i) = mnemonic # name # rest \<and>
        (\<exists>c\<in>set name. isdigit_c c \<or> c = CHR ''_'') \<longrightarrow>
        i < length prog \<and> int_of_str name \<noteq> None \<and> snd (prog ! i) = int_of_str name)
   \<and> compile ''loop1:\<newline>PUSH 1\<newline>JNZ loop1'' = Inl (InvalidOperand ''loop1'')
   \<and> compile ''my_label:\<newline>JMP my_label'' = Inl (InvalidOperand ''my_label'')
   \<and> compile ''PUSH 5\<newline>1_0:\<newline>HALT\<newline>JMP 1_0'' =
       Inr [(PUSH, Some 5), (HALT, None), (JMP, Some 10)]"
proof (intro conjI allI impI)
  fix name assume "ascii name \<and> name \<noteq> [] \<and> list_all isword_c name"
  then show "declared_label (name @ '':'') = Some name"
    using declaration_accepted by blast
next
  fix name assume "ascii name \<and> (\<exists>c\<in>set name. isdigit_c c \<or> c = CHR ''_'')"
  then show "\<not> isalpha name"
    using not_isalpha by blast
next
  fix name line assume "ascii name \<and> (\<exists>c\<in>set name. isdigit_c c \<or> c = CHR ''_'')"
  then show "referenced_label line \<noteq> Some name"
    using not_isalpha referenced_label_isalpha by blast
next
  fix self line mnemonic name rest instr
  assume "ascii line \<and> is_instruction_line line \<and> tokens line = mnemonic # name # rest \<and>
        instruction_map (upper mnemonic) = Some instr \<and>
        (\<exists>c\<in>set name. isdigit_c c \<or> c = CHR ''_'')"
  then show "parse_line self line =
          (case int_of_str name of
             None \<Rightarrow> Inl (InvalidOperand name)
           | Some n \<Rightarrow> Inr (self, Some (instr, Some (Num n))))"
    using parse_line_non_alpha_operand not_isalpha by blast
next
  fix src pre line post mnemonic name rest instr
  assume a: "ascii src \<and>
        splitlines src = pre @ line # post \<and> (\<forall>l\<in>set pre. spec_line_error l = None) \<and>
        is_instruction_line line \<and> tokens line = mnemonic # name # rest \<and>
        instruction_map (upper mnemonic) = Some instr \<and>
        (\<exists>c\<in>set name. isdigit_c c \<or> c = CHR ''_'') \<and> int_of_str name = None"
  then have "spec_line_error line = Some (InvalidOperand name)"
    using spec_line_error_non_alpha_operand not_isalpha by blast
  with a show "compile src = Inl (InvalidOperand name)"
    using compile_first_error by blast
next
  fix src prog i mnemonic name rest
  assume a: "ascii src \<and>
        compile src = Inr prog \<and> i < length (filter is_instruction_line (splitlines src)) \<and>
        tokens (filter is_instruction_line (splitlines src) ! i) = mnemonic # name # rest \<and>
        (\<exists>c\<in>set name. isdigit_c c \<or> c = CHR ''_'')"
  then have r: "i < length prog \<and> int_of_str name \<noteq> None \<and> snd (prog ! i) = int_of_str name"
    using literal_operand_compiled not_isalpha by blast
  from r show "i < length prog" by simp
  from r show "int_of_str name \<noteq> None" by simp
  from r show "snd (prog ! i) = int_of_str name" by simp
qed (rule digit_label_examples)+

lemma digit_label_witness_eval:
  "splitlines ''loop1:\<newline>PUSH 1\<newline>JNZ loop1'' = [''loop1:'', ''PUSH 1''] @ ''JNZ loop1'' # []"
  "\<forall>l\<in>set [''loop1:'', ''PUSH 1'']. spec_line_error l = None"
  "is_instruction_line ''JNZ loop1''"
  "tokens ''JNZ loop1'' = ''JNZ'' # ''loop1'' # []"
  "instruction_map (upper ''JNZ'') = Some JNZ"
  "\<exists>c\<in>set ''loop1''. isdigit_c c \<or> c = CHR ''_''"
  "int_of_str ''loop1'' = None"
  "list_all isword_c ''loop1''"
  "ascii ''loop1:\<newline>PUSH 1\<newline>JNZ loop1''"
  "ascii ''loop1''"
  by code_simp+

theorem label_with_digit_or_underscore_witness:
  "ascii ''loop1:\<newline>PUSH 1\<newline>JNZ loop1''
   \<and> ascii ''loop1''
   \<and> list_all isword_c ''loop1''
   \<and> (\<exists>c\<in>set ''loop1''. isdigit_c c \<or> c = CHR ''_'')
   \<and> declared_label (''loop1'' @ '':'') = Some ''loop1''
   \<and> splitlines ''loop1:\<newline>PUSH 1\<newline>JNZ loop1'' = [''loop1:'', ''PUSH 1''] @ ''JNZ loop1'' # []
   \<and> tokens ''JNZ loop1'' = ''JNZ'' # ''loop1'' # []
   \<and> int_of_str ''loop1'' = None
   \<and> compile ''loop1:\<newline>PUSH 1\<newline>JNZ loop1'' = Inl (InvalidOperand ''loop1'')"
proof -
  note e = digit_label_witness_eval
  have ne: "''loop1'' \<noteq> []" by simp
  have 1: "declared_label (''loop1'' @ '':'') = Some ''loop1''"
    using label_with_digit_or_underscore [THEN conjunct1, rule_format, of "''loop1''"] ne e(8,10)
    by simp
  have 2: "compile ''loop1:\<newline>PUSH 1\<newline>JNZ loop1'' = Inl (InvalidOperand ''loop1'')"
    using label_with_digit_or_underscore
      [THEN conjunct2, THEN conjunct2, THEN conjunct2, THEN conjunct1, rule_format,
       of "''loop1:\<newline>PUSH 1\<newline>JNZ loop1''" "[''loop1:'', ''PUSH 1'']" "''JNZ loop1''" "[]"
          "''JNZ''" "''loop1''" "[]" JNZ]
      e(1-7,9)
    by blast
  show ?thesis
    using e 1 2 by blast
qed

end
